theory Spec2Isabelle
  imports Main "HOL-Library.Sublist"
begin

section \<open>Errors\<close>

text \<open>
  Go errors are values. \<open>errNotFound\<close> is the sentinel the aggregator compares with
  \<open>==\<close>; \<open>errorsNew\<close> is \<open>errors.New\<close> with its message; \<open>fmtErrorf\<close> is the
  error of a pattern or allow-list mismatch in \<open>models.go\<close>, holding the rejected text;
  \<open>libraryError\<close> is an error made by a library the code calls (the HTTP client, the
  JSON decoder, the line scanner, the time parser).
\<close>

datatype error =
    errNotFound
  | errorsNew string
  | fmtErrorf string
  | libraryError string

section \<open>The metadata model (csaf/models.go)\<close>

text \<open>
  A nilable pointer field is an \<open>option\<close>; a slice is a list (a nil slice and an empty
  one are both \<open>[]\<close>). The named string types (TLPLabel, JSONURL, Fingerprint, Category,
  MetadataVersion, MetadataRole, ProviderURL) are strings. A time stamp is an instant
  with its nanoseconds and the offset of its zone.
\<close>

record TimeStamp =
  unixSeconds :: int
  nanoseconds :: nat
  zoneOffset :: int

record Feed =
  Feed_Summary :: string
  Feed_TLPLabel :: "string option"
  Feed_URL :: "string option"

record ROLIE =
  Categories :: "string list"
  Feeds :: "Feed list"
  Services :: "string list"

record Distribution =
  DirectoryURL :: string
  Rolie :: "ROLIE list"

record PGPKey =
  Fingerprint :: string
  PGPKey_URL :: "string option"

record Publisher =
  Category :: "string option"
  Name :: "string option"
  Namespace :: "string option"
  ContactDetails :: string
  IssuingAuthority :: string

record ProviderMetadata =
  CanonicalURL :: "string option"
  Distributions :: "Distribution list"
  LastUpdated :: "TimeStamp option"
  ListOnCSAFAggregators :: "bool option"
  MetadataVersion :: "string option"
  MirrorOnCSAFAggregators :: "bool option"
  PGPKeys :: "PGPKey list"
  Publisher :: "Publisher option"
  Role :: "string option"

definition MetadataVersion20 :: string where
  "MetadataVersion20 = ''2.0''"

definition MetadataRolePublisher :: string where
  "MetadataRolePublisher = ''csaf_publisher''"

definition MetadataRoleProvider :: string where
  "MetadataRoleProvider = ''csaf_provider''"

definition MetadataRoleTrustedProvider :: string where
  "MetadataRoleTrustedProvider = ''csaf_trusted_provider''"

subsection \<open>The text unmarshallers\<close>

text \<open>
  \<open>patternUnmarshal\<close> compiles a regular expression and accepts the texts it matches
  somewhere. The three expressions of the file are given by the predicates they
  denote: \<open>\.json$\<close> and \<open>/provider-metadata\.json$\<close> match exactly the texts that end
  in the literal, \<open>^[0-9a-fA-F]{40,}$\<close> the texts of at least forty hexadecimal digits.
\<close>

definition patternUnmarshal :: "(string \<Rightarrow> bool) \<Rightarrow> string \<Rightarrow> error + string" where
  "patternUnmarshal matches s = (if \<not> matches s then Inl (fmtErrorf s) else Inr s)"

fun alternativesUnmarshal :: "string list \<Rightarrow> string \<Rightarrow> error + string" where
  "alternativesUnmarshal [] s = Inl (fmtErrorf s)"
| "alternativesUnmarshal (alt # alternatives) s =
     (if alt = s then Inr s else alternativesUnmarshal alternatives s)"

definition tlpLabelPattern :: "string \<Rightarrow> error + string" where
  "tlpLabelPattern =
     alternativesUnmarshal [''UNLABELED'', ''WHITE'', ''GREEN'', ''AMBER'', ''RED'']"

definition jsonURLPattern :: "string \<Rightarrow> error + string" where
  "jsonURLPattern = patternUnmarshal (suffix ''.json'')"

definition isHexDigit :: "char \<Rightarrow> bool" where
  "isHexDigit c = (c \<in> set ''0123456789abcdefABCDEF'')"

definition fingerprintPattern :: "string \<Rightarrow> error + string" where
  "fingerprintPattern =
     patternUnmarshal (\<lambda>s. 40 \<le> length s \<and> list_all isHexDigit s)"

definition csafCategoryPattern :: "string \<Rightarrow> error + string" where
  "csafCategoryPattern =
     alternativesUnmarshal
       [''coordinator'', ''discoverer'', ''other'', ''translator'', ''user'', ''vendor'']"

definition metadataVersionPattern :: "string \<Rightarrow> error + string" where
  "metadataVersionPattern = alternativesUnmarshal [MetadataVersion20]"

definition metadataRolePattern :: "string \<Rightarrow> error + string" where
  "metadataRolePattern =
     alternativesUnmarshal
       [MetadataRolePublisher, MetadataRoleProvider, MetadataRoleTrustedProvider]"

definition providerURLPattern :: "string \<Rightarrow> error + string" where
  "providerURLPattern = patternUnmarshal (suffix ''/provider-metadata.json'')"

subsection \<open>Defaults\<close>

definition Defaults :: "ProviderMetadata \<Rightarrow> ProviderMetadata" where
  "Defaults pmd =
     (let pmd1 = (if Role pmd = None
                  then pmd\<lparr>Role := Some MetadataRoleProvider\<rparr> else pmd);
          pmd2 = (if ListOnCSAFAggregators pmd1 = None
                  then pmd1\<lparr>ListOnCSAFAggregators := Some True\<rparr> else pmd1);
          pmd3 = (if MirrorOnCSAFAggregators pmd2 = None
                  then pmd2\<lparr>MirrorOnCSAFAggregators := Some True\<rparr> else pmd2)
      in if MetadataVersion pmd3 = None
         then pmd3\<lparr>MetadataVersion := Some MetadataVersion20\<rparr> else pmd3)"

subsection \<open>Validate\<close>

text \<open>A \<open>Validate\<close> method returns \<open>None\<close> for Go's nil error.\<close>

definition Feed_Validate :: "Feed \<Rightarrow> error option" where
  "Feed_Validate f =
     (if Feed_TLPLabel f = None then Some (errorsNew ''feed[].tlp_label is mandatory'')
      else if Feed_URL f = None then Some (errorsNew ''feed[].url is mandatory'')
      else None)"

text \<open>
  The loop \<open>for i := range xs { if err := xs[i].Validate(); err != nil { return err } }\<close>
  of \<open>ROLIE.Validate\<close> and \<open>ProviderMetadata.Validate\<close>: the first error, or nil.
\<close>

fun validateEach :: "('a \<Rightarrow> error option) \<Rightarrow> 'a list \<Rightarrow> error option" where
  "validateEach v [] = None"
| "validateEach v (x # xs) =
     (case v x of Some err \<Rightarrow> Some err | None \<Rightarrow> validateEach v xs)"

definition ROLIE_Validate :: "ROLIE \<Rightarrow> error option" where
  "ROLIE_Validate r =
     (if length (Feeds r) < 1 then Some (errorsNew ''ROLIE needs at least one feed'')
      else validateEach Feed_Validate (Feeds r))"

definition Publisher_Validate :: "Publisher option \<Rightarrow> error option" where
  "Publisher_Validate cp =
     (case cp of
        None \<Rightarrow> Some (errorsNew ''publisher is mandatory'')
      | Some p \<Rightarrow>
          if Category p = None then Some (errorsNew ''publisher.category is mandatory'')
          else if Name p = None then Some (errorsNew ''publisher.name is mandatory'')
          else if Namespace p = None then Some (errorsNew ''publisher.namespace is mandatory'')
          else None)"

definition PGPKey_Validate :: "PGPKey \<Rightarrow> error option" where
  "PGPKey_Validate pk =
     (if PGPKey_URL pk = None then Some (errorsNew ''pgp_key[].url is mandatory'')
      else None)"

text \<open>
  The loop of \<open>Distribution.Validate\<close> leaves with \<open>return nil\<close> when a ROLIE block
  does not validate, and the method ends with \<open>return nil\<close>.
\<close>

fun Distribution_Validate_loop :: "ROLIE list \<Rightarrow> error option" where
  "Distribution_Validate_loop [] = None"
| "Distribution_Validate_loop (r # rs) =
     (case ROLIE_Validate r of Some err \<Rightarrow> None | None \<Rightarrow> Distribution_Validate_loop rs)"

definition Distribution_Validate :: "Distribution \<Rightarrow> error option" where
  "Distribution_Validate d = Distribution_Validate_loop (Rolie d)"

definition Validate :: "ProviderMetadata \<Rightarrow> error option" where
  "Validate pmd =
     (if CanonicalURL pmd = None then Some (errorsNew ''canonical_url is mandatory'')
      else if LastUpdated pmd = None then Some (errorsNew ''last_updated is mandatory'')
      else if MetadataVersion pmd = None then Some (errorsNew ''metadata_version is mandatory'')
      else case Publisher_Validate (Publisher pmd) of
             Some err \<Rightarrow> Some err
           | None \<Rightarrow>
               (case validateEach PGPKey_Validate (PGPKeys pmd) of
                  Some err \<Rightarrow> Some err
                | None \<Rightarrow> validateEach Distribution_Validate (Distributions pmd)))"

subsection \<open>SetPGP\<close>

text \<open>
  The loop of \<open>SetPGP\<close> stores the URL in the first key with the fingerprint and
  returns; when it runs to the end, the new key is appended.
\<close>

fun SetPGP_keys :: "string \<Rightarrow> string \<Rightarrow> PGPKey list \<Rightarrow> PGPKey list" where
  "SetPGP_keys fingerprint url [] =
     [\<lparr>Fingerprint = fingerprint, PGPKey_URL = Some url\<rparr>]"
| "SetPGP_keys fingerprint url (k # ks) =
     (if Fingerprint k = fingerprint then k\<lparr>PGPKey_URL := Some url\<rparr> # ks
      else k # SetPGP_keys fingerprint url ks)"

definition SetPGP :: "string \<Rightarrow> string \<Rightarrow> ProviderMetadata \<Rightarrow> ProviderMetadata" where
  "SetPGP fingerprint url pmd = pmd\<lparr>PGPKeys := SetPGP_keys fingerprint url (PGPKeys pmd)\<rparr>"

subsection \<open>NewProviderMetadata\<close>

text \<open>
  \<open>SetLastUpdated\<close> stores the instant in UTC: the same instant with zone offset 0.
  \<open>NewProviderMetadata\<close> reads the clock; the instant read is the argument \<open>now\<close>.
\<close>

definition SetLastUpdated :: "TimeStamp \<Rightarrow> ProviderMetadata \<Rightarrow> ProviderMetadata" where
  "SetLastUpdated t pmd = pmd\<lparr>LastUpdated := Some (t\<lparr>zoneOffset := 0\<rparr>)\<rparr>"

definition zeroProviderMetadata :: ProviderMetadata where
  "zeroProviderMetadata =
     \<lparr>CanonicalURL = None, Distributions = [], LastUpdated = None,
      ListOnCSAFAggregators = None, MetadataVersion = None,
      MirrorOnCSAFAggregators = None, PGPKeys = [], Publisher = None, Role = None\<rparr>"

definition NewProviderMetadata :: "TimeStamp \<Rightarrow> string \<Rightarrow> ProviderMetadata" where
  "NewProviderMetadata now canonicalURL =
     (SetLastUpdated now (Defaults zeroProviderMetadata))\<lparr>CanonicalURL := Some canonicalURL\<rparr>"

section \<open>JSON documents\<close>

text \<open>
  \<open>Save\<close> and \<open>LoadProviderMetadata\<close> go through \<open>encoding/json\<close>. A stream is
  represented by the JSON value its bytes denote: the encoder's indentation and the
  lexical layer of the decoder are below this model, and strings are valid UTF-8, which
  the encoder writes and the decoder reads back unchanged. An object is the list of its
  members in document order.
\<close>

datatype json =
    JNull
  | JBool bool
  | JNumber string
  | JString string
  | JArray "json list"
  | JObject "(string \<times> json) list"

definition bindE :: "error + 'a \<Rightarrow> ('a \<Rightarrow> error + 'b) \<Rightarrow> error + 'b" where
  "bindE m f = (case m of Inl err \<Rightarrow> Inl err | Inr x \<Rightarrow> f x)"

definition typeError :: error where
  "typeError = libraryError ''json: cannot unmarshal value into Go value''"

subsection \<open>How the decoder fills a field\<close>

text \<open>
  The argument is the member found for the field's tag, \<open>None\<close> when the object has
  none: the field then keeps its zero value. \<open>null\<close> sets a pointer or a slice to nil
  and leaves any other field alone. A type with an \<open>UnmarshalText\<close> method takes a JSON
  string only, through that method. Members are found by the exact name of the tag, in
  an object whose member names are distinct; members with other names are ignored. Of
  several offending members the model reports the first in the order of the struct's
  fields.
\<close>

fun decodeString :: "json option \<Rightarrow> error + string" where
  "decodeString None = Inr []"
| "decodeString (Some JNull) = Inr []"
| "decodeString (Some (JString s)) = Inr s"
| "decodeString (Some _) = Inl typeError"

fun decodeStringPtr :: "json option \<Rightarrow> error + string option" where
  "decodeStringPtr None = Inr None"
| "decodeStringPtr (Some JNull) = Inr None"
| "decodeStringPtr (Some (JString s)) = Inr (Some s)"
| "decodeStringPtr (Some _) = Inl typeError"

fun decodeBoolPtr :: "json option \<Rightarrow> error + bool option" where
  "decodeBoolPtr None = Inr None"
| "decodeBoolPtr (Some JNull) = Inr None"
| "decodeBoolPtr (Some (JBool b)) = Inr (Some b)"
| "decodeBoolPtr (Some _) = Inl typeError"

fun decodeTextPtr :: "(string \<Rightarrow> error + 'a) \<Rightarrow> json option \<Rightarrow> error + 'a option" where
  "decodeTextPtr unmarshalText None = Inr None"
| "decodeTextPtr unmarshalText (Some JNull) = Inr None"
| "decodeTextPtr unmarshalText (Some (JString s)) =
     bindE (unmarshalText s) (\<lambda>v. Inr (Some v))"
| "decodeTextPtr unmarshalText (Some _) = Inl typeError"

fun decodeText :: "(string \<Rightarrow> error + string) \<Rightarrow> json option \<Rightarrow> error + string" where
  "decodeText unmarshalText None = Inr []"
| "decodeText unmarshalText (Some JNull) = Inr []"
| "decodeText unmarshalText (Some (JString s)) = unmarshalText s"
| "decodeText unmarshalText (Some _) = Inl typeError"

fun decodeEach :: "(json \<Rightarrow> error + 'a) \<Rightarrow> json list \<Rightarrow> error + 'a list" where
  "decodeEach dec [] = Inr []"
| "decodeEach dec (j # js) =
     bindE (dec j) (\<lambda>x. bindE (decodeEach dec js) (\<lambda>xs. Inr (x # xs)))"

fun decodeSlice :: "(json \<Rightarrow> error + 'a) \<Rightarrow> json option \<Rightarrow> error + 'a list" where
  "decodeSlice dec None = Inr []"
| "decodeSlice dec (Some JNull) = Inr []"
| "decodeSlice dec (Some (JArray js)) = decodeEach dec js"
| "decodeSlice dec (Some _) = Inl typeError"

text \<open>The members a struct value is filled from: \<open>null\<close> leaves the struct zero.\<close>

fun structMembers :: "json \<Rightarrow> error + (string \<times> json) list" where
  "structMembers (JObject ms) = Inr ms"
| "structMembers JNull = Inr []"
| "structMembers _ = Inl typeError"

subsection \<open>Decoding the metadata model\<close>

definition Feed_decode :: "json \<Rightarrow> error + Feed" where
  "Feed_decode j =
     bindE (structMembers j) (\<lambda>ms.
     bindE (decodeString (map_of ms ''summary'')) (\<lambda>s.
     bindE (decodeTextPtr tlpLabelPattern (map_of ms ''tlp_label'')) (\<lambda>t.
     bindE (decodeTextPtr jsonURLPattern (map_of ms ''url'')) (\<lambda>u.
     Inr \<lparr>Feed_Summary = s, Feed_TLPLabel = t, Feed_URL = u\<rparr>))))"

definition JSONURL_decode :: "json \<Rightarrow> error + string" where
  "JSONURL_decode j = decodeText jsonURLPattern (Some j)"

definition ROLIE_decode :: "json \<Rightarrow> error + ROLIE" where
  "ROLIE_decode j =
     bindE (structMembers j) (\<lambda>ms.
     bindE (decodeSlice JSONURL_decode (map_of ms ''categories'')) (\<lambda>cs.
     bindE (decodeSlice Feed_decode (map_of ms ''feeds'')) (\<lambda>fs.
     bindE (decodeSlice JSONURL_decode (map_of ms ''services'')) (\<lambda>ss.
     Inr \<lparr>Categories = cs, Feeds = fs, Services = ss\<rparr>))))"

definition Distribution_decode :: "json \<Rightarrow> error + Distribution" where
  "Distribution_decode j =
     bindE (structMembers j) (\<lambda>ms.
     bindE (decodeString (map_of ms ''directory_url'')) (\<lambda>d.
     bindE (decodeSlice ROLIE_decode (map_of ms ''rolie'')) (\<lambda>rs.
     Inr \<lparr>DirectoryURL = d, Rolie = rs\<rparr>)))"

definition PGPKey_decode :: "json \<Rightarrow> error + PGPKey" where
  "PGPKey_decode j =
     bindE (structMembers j) (\<lambda>ms.
     bindE (decodeText fingerprintPattern (map_of ms ''fingerprint'')) (\<lambda>fp.
     bindE (decodeStringPtr (map_of ms ''url'')) (\<lambda>u.
     Inr \<lparr>Fingerprint = fp, PGPKey_URL = u\<rparr>)))"

definition Publisher_fields :: "(string \<times> json) list \<Rightarrow> error + Publisher" where
  "Publisher_fields ms =
     bindE (decodeTextPtr csafCategoryPattern (map_of ms ''category'')) (\<lambda>c.
     bindE (decodeStringPtr (map_of ms ''name'')) (\<lambda>n.
     bindE (decodeStringPtr (map_of ms ''namespace'')) (\<lambda>ns.
     bindE (decodeString (map_of ms ''contact_details'')) (\<lambda>cd.
     bindE (decodeString (map_of ms ''issuing_authority'')) (\<lambda>ia.
     Inr \<lparr>Category = c, Name = n, Namespace = ns,
          ContactDetails = cd, IssuingAuthority = ia\<rparr>)))))"

fun Publisher_decode :: "json option \<Rightarrow> error + Publisher option" where
  "Publisher_decode None = Inr None"
| "Publisher_decode (Some JNull) = Inr None"
| "Publisher_decode (Some (JObject ms)) = bindE (Publisher_fields ms) (\<lambda>p. Inr (Some p))"
| "Publisher_decode (Some _) = Inl typeError"

text \<open>
  \<open>TimeStamp.UnmarshalText\<close> is \<open>time.Parse\<close> with the RFC 3339 layout, and
  \<open>TimeStamp.MarshalText\<close> is \<open>Format\<close> with the same layout; both belong to the time
  library and are the parameters \<open>timeParse\<close> and \<open>timeFormat\<close>. Neither
  \<open>MetadataVersion\<close> nor \<open>MetadataRole\<close> has an \<open>UnmarshalText\<close> method in the
  file: they are read as plain strings.
\<close>

definition ProviderMetadata_decode ::
    "(string \<Rightarrow> error + TimeStamp) \<Rightarrow> json \<Rightarrow> error + ProviderMetadata" where
  "ProviderMetadata_decode timeParse j =
     bindE (structMembers j) (\<lambda>ms.
     bindE (decodeTextPtr providerURLPattern (map_of ms ''canonical_url'')) (\<lambda>cu.
     bindE (decodeSlice Distribution_decode (map_of ms ''distributions'')) (\<lambda>ds.
     bindE (decodeTextPtr timeParse (map_of ms ''last_updated'')) (\<lambda>lu.
     bindE (decodeBoolPtr (map_of ms ''list_on_CSAF_aggregators'')) (\<lambda>l.
     bindE (decodeStringPtr (map_of ms ''metadata_version'')) (\<lambda>mv.
     bindE (decodeBoolPtr (map_of ms ''mirror_on_CSAF_aggregators'')) (\<lambda>m.
     bindE (decodeSlice PGPKey_decode (map_of ms ''pgp_keys'')) (\<lambda>ks.
     bindE (Publisher_decode (map_of ms ''publisher'')) (\<lambda>p.
     bindE (decodeStringPtr (map_of ms ''role'')) (\<lambda>r.
     Inr \<lparr>CanonicalURL = cu, Distributions = ds, LastUpdated = lu,
          ListOnCSAFAggregators = l, MetadataVersion = mv,
          MirrorOnCSAFAggregators = m, PGPKeys = ks, Publisher = p,
          Role = r\<rparr>))))))))))"

subsection \<open>LoadProviderMetadata\<close>

text \<open>
  The reader holds a JSON value, or (\<open>None\<close>) bytes that are no JSON value, on which
  \<open>Decode\<close> fails.
\<close>

definition LoadProviderMetadata ::
    "(string \<Rightarrow> error + TimeStamp) \<Rightarrow> json option \<Rightarrow> error + ProviderMetadata" where
  "LoadProviderMetadata timeParse r =
     (case r of
        None \<Rightarrow> Inl (libraryError ''json: no value'')
      | Some j \<Rightarrow>
          (case ProviderMetadata_decode timeParse j of
             Inl err \<Rightarrow> Inl err
           | Inr pmd \<Rightarrow>
               (case Validate pmd of
                  Some err \<Rightarrow> Inl err
                | None \<Rightarrow> Inr (Defaults pmd))))"

subsection \<open>Save\<close>

text \<open>
  The encoder writes the fields in the order of the struct, a nil pointer and a nil
  slice as \<open>null\<close>, and leaves out an empty \<open>omitempty\<close> field.
\<close>

definition encodeStringPtr :: "string option \<Rightarrow> json" where
  "encodeStringPtr p = (case p of None \<Rightarrow> JNull | Some s \<Rightarrow> JString s)"

definition encodeBoolPtr :: "bool option \<Rightarrow> json" where
  "encodeBoolPtr p = (case p of None \<Rightarrow> JNull | Some b \<Rightarrow> JBool b)"

definition encodeSlice :: "('a \<Rightarrow> json) \<Rightarrow> 'a list \<Rightarrow> json" where
  "encodeSlice enc xs = (if xs = [] then JNull else JArray (map enc xs))"

definition omitempty :: "string \<Rightarrow> 'a list \<Rightarrow> json \<Rightarrow> (string \<times> json) list" where
  "omitempty tag field j = (if field = [] then [] else [(tag, j)])"

definition Feed_encode :: "Feed \<Rightarrow> json" where
  "Feed_encode f =
     JObject [(''summary'', JString (Feed_Summary f)),
              (''tlp_label'', encodeStringPtr (Feed_TLPLabel f)),
              (''url'', encodeStringPtr (Feed_URL f))]"

definition ROLIE_encode :: "ROLIE \<Rightarrow> json" where
  "ROLIE_encode r =
     JObject (omitempty ''categories'' (Categories r) (JArray (map JString (Categories r)))
              @ [(''feeds'', encodeSlice Feed_encode (Feeds r))]
              @ omitempty ''services'' (Services r) (JArray (map JString (Services r))))"

definition Distribution_encode :: "Distribution \<Rightarrow> json" where
  "Distribution_encode d =
     JObject (omitempty ''directory_url'' (DirectoryURL d) (JString (DirectoryURL d))
              @ [(''rolie'', encodeSlice ROLIE_encode (Rolie d))])"

definition PGPKey_encode :: "PGPKey \<Rightarrow> json" where
  "PGPKey_encode k =
     JObject (omitempty ''fingerprint'' (Fingerprint k) (JString (Fingerprint k))
              @ [(''url'', encodeStringPtr (PGPKey_URL k))])"

definition Publisher_encode :: "Publisher option \<Rightarrow> json" where
  "Publisher_encode cp =
     (case cp of
        None \<Rightarrow> JNull
      | Some p \<Rightarrow>
          JObject ([(''category'', encodeStringPtr (Category p)),
                    (''name'', encodeStringPtr (Name p)),
                    (''namespace'', encodeStringPtr (Namespace p))]
                   @ omitempty ''contact_details'' (ContactDetails p)
                       (JString (ContactDetails p))
                   @ omitempty ''issuing_authority'' (IssuingAuthority p)
                       (JString (IssuingAuthority p))))"

definition Save :: "(TimeStamp \<Rightarrow> string) \<Rightarrow> ProviderMetadata \<Rightarrow> json" where
  "Save timeFormat pmd =
     JObject ([(''canonical_url'', encodeStringPtr (CanonicalURL pmd))]
              @ omitempty ''distributions'' (Distributions pmd)
                  (JArray (map Distribution_encode (Distributions pmd)))
              @ [(''last_updated'',
                    (case LastUpdated pmd of None \<Rightarrow> JNull
                     | Some ts \<Rightarrow> JString (timeFormat ts))),
                 (''list_on_CSAF_aggregators'', encodeBoolPtr (ListOnCSAFAggregators pmd)),
                 (''metadata_version'', encodeStringPtr (MetadataVersion pmd)),
                 (''mirror_on_CSAF_aggregators'',
                    encodeBoolPtr (MirrorOnCSAFAggregators pmd))]
              @ omitempty ''pgp_keys'' (PGPKeys pmd) (JArray (map PGPKey_encode (PGPKeys pmd)))
              @ [(''publisher'', Publisher_encode (Publisher pmd)),
                 (''role'', encodeStringPtr (Role pmd))])"

section \<open>Discovery (cmd/csaf\_aggregator/processor.go)\<close>

subsection \<open>The HTTP client\<close>

text \<open>
  A response body is empty, or starts with a JSON value, or is other text, given by
  its lines. The client is the function from a URL to what \<open>Get\<close> returns for it: an
  error of the transport, or a response. Of the worker, \<open>locateProviderMetadata\<close>
  touches \<open>metadataProvider\<close> (an \<open>interface{}\<close>, \<open>None\<close> when nil) and \<open>loc\<close>.
  Each function that fetches also returns the URLs it requested, in order.
\<close>

datatype body = EmptyBody | JSONBody json | TextBody "string list"

record response =
  StatusCode :: nat
  Body :: body

type_synonym client = "string \<Rightarrow> error + response"

record worker =
  metadataProvider :: "json option"
  loc :: string

definition StatusOK :: nat where
  "StatusOK = 200"

text \<open>
  \<open>json.NewDecoder(r).Decode(&v)\<close> for an \<open>interface{}\<close>: the value read, nil for
  \<open>null\<close>; an error when the body is empty or is no JSON text.
\<close>

fun decodeInterface :: "body \<Rightarrow> error + json option" where
  "decodeInterface EmptyBody = Inl (libraryError ''EOF'')"
| "decodeInterface (TextBody ls) = Inl (libraryError ''json: invalid character'')"
| "decodeInterface (JSONBody JNull) = Inr None"
| "decodeInterface (JSONBody j) = Inr (Some j)"

text \<open>
  Modelled from the spec: \<open>downloadJSON\<close> is called by \<open>locateProviderMetadata\<close> and is
  not among the sources. The spec's fetch helper performs a GET; a transport error is
  a hard error; a non-success status or an empty body is reported as NotFound;
  otherwise the consumer gets the body and its result is the helper's.
\<close>

definition downloadJSON ::
    "client \<Rightarrow> string \<Rightarrow> (body \<Rightarrow> worker \<Rightarrow> error option \<times> worker) \<Rightarrow> worker
      \<Rightarrow> error option \<times> worker" where
  "downloadJSON c url found w =
     (case c url of
        Inl err \<Rightarrow> (Some err, w)
      | Inr res \<Rightarrow>
          if StatusCode res \<noteq> StatusOK \<or> Body res = EmptyBody then (Some errNotFound, w)
          else found (Body res) w)"

text \<open>
  Modelled from the spec: \<open>csaf.ExtractProviderURL\<close> is not among the sources. The
  spec's extraction takes the values of the \<open>CSAF:\<close> fields of the text, in exact form:
  here the lines that start with \<open>CSAF:\<close>, without the field name and the blanks
  around the value. \<open>locateProviderMetadata\<close> takes the extraction as a parameter; this
  definition is what the examples pass.
\<close>

definition trimSpace :: "string \<Rightarrow> string" where
  "trimSpace s =
     rev (dropWhile (\<lambda>c. c = CHR '' '') (rev (dropWhile (\<lambda>c. c = CHR '' '') s)))"

fun ExtractProviderURL :: "body \<Rightarrow> error + string list" where
  "ExtractProviderURL (TextBody ls) =
     Inr (map (\<lambda>l. trimSpace (drop 5 l)) (filter (prefix ''CSAF:'') ls))"
| "ExtractProviderURL _ = Inr []"

subsection \<open>locateProviderMetadata\<close>

definition httpsDomain :: "string \<Rightarrow> string" where
  "httpsDomain domain =
     (if prefix ''https://'' domain then domain else ''https://'' @ domain)"

definition providerMetadataLocations :: "string list" where
  "providerMetadataLocations =
     [''.well-known/csaf'', ''security/data/csaf'', ''advisories/csaf'', ''security/csaf'']"

text \<open>The closure \<open>download\<close>: a decoding error is logged and becomes \<open>errNotFound\<close>.\<close>

definition download :: "body \<Rightarrow> worker \<Rightarrow> error option \<times> worker" where
  "download r w =
     (case decodeInterface r of
        Inl err \<Rightarrow> (Some errNotFound, w)
      | Inr v \<Rightarrow> (None, w\<lparr>metadataProvider := v\<rparr>))"

text \<open>
  The loop over the locations. The first component of the result is \<open>Some r\<close> when the
  loop left the function with \<open>return r\<close>, and \<open>None\<close> when it ran to its end.
\<close>

fun locateLoop ::
    "client \<Rightarrow> string \<Rightarrow> string list \<Rightarrow> worker \<Rightarrow> string list
      \<Rightarrow> error option option \<times> worker \<times> string list" where
  "locateLoop c hd' [] w requested = (None, w, requested)"
| "locateLoop c hd' (l # ls) w requested =
     (let url = hd' @ ''/'' @ l in
      case downloadJSON c url download w of
        (Some err, w1) \<Rightarrow>
          if err = errNotFound then locateLoop c hd' ls w1 (requested @ [url])
          else (Some (Some err), w1, requested @ [url])
      | (None, w1) \<Rightarrow>
          if metadataProvider w1 \<noteq> None
          then (Some None, w1\<lparr>loc := l\<rparr>, requested @ [url])
          else locateLoop c hd' ls w1 (requested @ [url]))"

definition locateProviderMetadata ::
    "(body \<Rightarrow> error + string list) \<Rightarrow> client \<Rightarrow> string \<Rightarrow> worker
      \<Rightarrow> error option \<times> worker \<times> string list" where
  "locateProviderMetadata extract c domain w0 =
     (let w = w0\<lparr>metadataProvider := None\<rparr>;
          hd' = httpsDomain domain
      in case locateLoop c hd' providerMetadataLocations w [] of
           (Some r, w1, requested) \<Rightarrow> (r, w1, requested)
         | (None, w1, requested) \<Rightarrow>
             (let path = hd' @ ''/.well-known/security.txt'';
                  requested1 = requested @ [path]
              in case c path of
                   Inl err \<Rightarrow> (Some err, w1, requested1)
                 | Inr res \<Rightarrow>
                     if StatusCode res \<noteq> StatusOK then (Some errNotFound, w1, requested1)
                     else (case extract (Body res) of
                             Inl err \<Rightarrow> (Some err, w1, requested1)
                           | Inr urls \<Rightarrow>
                               if length urls = 0
                               then (Some (errorsNew
                                       ''no provider-metadata.json found in secturity.txt''),
                                     w1, requested1)
                               else (let w2 = w1\<lparr>loc := urls ! 0\<rparr>;
                                         (r, w3) = downloadJSON c (loc w2) download w2
                                     in (r, w3, requested1 @ [loc w2])))))"

text \<open>
  The response to a URL is a success whose body is the JSON value \<open>null\<close>.
\<close>

definition nullBody :: "client \<Rightarrow> string \<Rightarrow> bool" where
  "nullBody c url =
     (case c url of
        Inl err \<Rightarrow> False
      | Inr res \<Rightarrow> StatusCode res = StatusOK \<and> Body res = JSONBody JNull)"

section \<open>Orphan removal (cmd/csaf\_aggregator/processor.go)\<close>

subsection \<open>The file system\<close>

text \<open>
  A path is the list of the names from the root to the file, so \<open>[]\<close> is the root, and
  \<open>filepath.Join\<close> appends names. The paths of the configuration are absolute and
  clean, which makes \<open>filepath.Abs\<close> the identity. The file system is the list of its
  files with what each one is: a regular file, a directory, or a symbolic link with the
  absolute path it points to; the root is a directory. Looking a path up takes its first
  entry in the list, and removing a path removes every entry of it. Permissions are not
  part of the model: an operation fails only when the files it needs are missing or of
  the wrong kind.
\<close>

type_synonym path = "string list"

datatype node = File | Dir | Symlink path

type_synonym fs = "(path \<times> node) list"

definition isDir :: "fs \<Rightarrow> path \<Rightarrow> bool" where
  "isDir fs p = (p = [] \<or> map_of fs p = Some Dir)"

text \<open>
  \<open>filepath.EvalSymlinks\<close> walks the names of the path from the root, and on a link
  goes on with the link's target followed by the names still to walk. It gives up after
  255 links, on a missing name, and on a regular file that is not the last name.
\<close>

fun walkSymlinks :: "fs \<Rightarrow> nat \<Rightarrow> path \<Rightarrow> path \<Rightarrow> path option" where
  "walkSymlinks fs n dest [] = Some dest"
| "walkSymlinks fs n dest (c # cs) =
     (case map_of fs (dest @ [c]) of
        None \<Rightarrow> None
      | Some File \<Rightarrow> if cs = [] then Some (dest @ [c]) else None
      | Some Dir \<Rightarrow> walkSymlinks fs n (dest @ [c]) cs
      | Some (Symlink target) \<Rightarrow>
          (case n of 0 \<Rightarrow> None | Suc m \<Rightarrow> walkSymlinks fs m [] (target @ cs)))"

definition EvalSymlinks :: "fs \<Rightarrow> path \<Rightarrow> path option" where
  "EvalSymlinks fs p = walkSymlinks fs 255 [] p"

text \<open>\<open>os.Stat\<close> follows links; \<open>os.Lstat\<close> follows them in the directory part only.\<close>

definition Stat :: "fs \<Rightarrow> path \<Rightarrow> node option" where
  "Stat fs p =
     (case EvalSymlinks fs p of
        None \<Rightarrow> None
      | Some q \<Rightarrow> if q = [] then Some Dir else map_of fs q)"

definition Lstat :: "fs \<Rightarrow> path \<Rightarrow> node option" where
  "Lstat fs p =
     (if p = [] then Some Dir
      else case EvalSymlinks fs (butlast p) of
             None \<Rightarrow> None
           | Some q \<Rightarrow> if isDir fs q then map_of fs (q @ [last p]) else None)"

definition isSymlink :: "node \<Rightarrow> bool" where
  "isSymlink fi = (case fi of Symlink target \<Rightarrow> True | _ \<Rightarrow> False)"

text \<open>
  \<open>os.Open\<close> followed by \<open>ReadDir(-1)\<close>: the names in the directory the path leads
  to, in the order of the directory.
\<close>

definition ReadDir :: "fs \<Rightarrow> path \<Rightarrow> string list option" where
  "ReadDir fs p =
     (case EvalSymlinks fs p of
        None \<Rightarrow> None
      | Some q \<Rightarrow>
          if isDir fs q
          then Some (remdups (map (\<lambda>(f, n). last f)
                 (filter (\<lambda>(f, n). f \<noteq> [] \<and> butlast f = q) fs)))
          else None)"

text \<open>
  \<open>os.Remove\<close> removes the file of that name in the directory the rest of the path
  leads to; a directory must be empty. \<open>os.RemoveAll\<close> removes the path and all below
  it, and is content when there is nothing. The sweep calls it with a path that
  \<open>EvalSymlinks\<close> returned, which has no link in it.
\<close>

definition Remove :: "fs \<Rightarrow> path \<Rightarrow> fs option" where
  "Remove fs p =
     (if p = [] then None
      else case EvalSymlinks fs (butlast p) of
             None \<Rightarrow> None
           | Some q \<Rightarrow>
               (let f = q @ [last p] in
                if \<not> isDir fs q \<or> map_of fs f = None then None
                else if map_of fs f = Some Dir \<and> (\<exists>g \<in> set (map fst fs). strict_prefix f g)
                then None
                else Some (filter (\<lambda>(g, n). g \<noteq> f) fs)))"

definition RemoveAll :: "fs \<Rightarrow> path \<Rightarrow> fs" where
  "RemoveAll fs r = filter (\<lambda>(g, n). \<not> prefix r g) fs"

text \<open>
  \<open>filepath.Rel\<close> of two absolute clean paths drops their common start, climbs with
  \<open>..\<close> out of what is left of the base, and descends the rest of the target; the
  empty list stands for \<open>.\<close>. \<open>filepath.Base\<close> is the last name, and \<open>/\<close> for the
  root. A relative path of one name is compared with a name.
\<close>

fun Rel :: "path \<Rightarrow> path \<Rightarrow> path" where
  "Rel [] targ = targ"
| "Rel (b # bs) [] = replicate (length (b # bs)) ''..''"
| "Rel (b # bs) (t # ts) =
     (if b = t then Rel bs ts else replicate (length (b # bs)) ''..'' @ (t # ts))"

definition Base :: "path \<Rightarrow> string" where
  "Base p = (if p = [] then ''/'' else last p)"

subsection \<open>removeOrphans\<close>

record config =
  Providers :: "string list"
  Web :: path
  Folder :: path

text \<open>
  \<open>Providers\<close> holds the names of the configured providers, from which the sweep
  builds \<open>keep\<close>. \<open>removeOrphan\<close> is the body of the loop over the entries: each
  \<open>continue\<close> leaves the file system as it is.
\<close>

definition removeOrphan :: "string set \<Rightarrow> path \<Rightarrow> path \<Rightarrow> fs \<Rightarrow> string \<Rightarrow> fs" where
  "removeOrphan keep path pfx fs name =
     (if name \<in> keep then fs
      else case Lstat fs (path @ [name]) of
             None \<Rightarrow> fs
           | Some fi \<Rightarrow>
               if \<not> isSymlink fi then fs
               else (let d = path @ [name] in
                     case EvalSymlinks fs d of
                       None \<Rightarrow> fs
                     | Some r \<Rightarrow>
                         (case Stat fs r of
                            None \<Rightarrow> fs
                          | Some fd \<Rightarrow>
                              if fd \<noteq> Dir then fs
                              else (case Remove fs d of
                                      None \<Rightarrow> fs
                                    | Some fs1 \<Rightarrow>
                                        if Rel pfx r = [Base r] then RemoveAll fs1 r
                                        else fs1))))"

definition webFolder :: "config \<Rightarrow> path" where
  "webFolder cfg = Web cfg @ [''.well-known'', ''csaf-aggregator'']"

text \<open>The loop \<open>for _, entry := range entries\<close>, from the file system it starts in.\<close>

fun sweep :: "string set \<Rightarrow> path \<Rightarrow> path \<Rightarrow> fs \<Rightarrow> string list \<Rightarrow> fs" where
  "sweep keep path pfx fs [] = fs"
| "sweep keep path pfx fs (name # entries) =
     sweep keep path pfx (removeOrphan keep path pfx fs name) entries"

definition removeOrphans :: "config \<Rightarrow> fs \<Rightarrow> error + fs" where
  "removeOrphans cfg fs =
     (let keep = set (Providers cfg);
          path = webFolder cfg
      in case ReadDir fs path of
           None \<Rightarrow> Inl (libraryError ''open'')
         | Some entries \<Rightarrow>
             (case EvalSymlinks fs (Folder cfg) of
                None \<Rightarrow> Inl (libraryError ''lstat'')
              | Some pfx \<Rightarrow> Inr (sweep keep path pfx fs entries)))"

section \<open>Example data\<close>

subsection \<open>Documents\<close>

text \<open>
  The examples fix one instant, 2022-03-01T10:00:00Z, and stand-ins for the time
  library that format and parse that instant.
\<close>

definition exampleTime :: TimeStamp where
  "exampleTime = \<lparr>unixSeconds = 1646128800, nanoseconds = 0, zoneOffset = 0\<rparr>"

definition exampleTimeFormat :: "TimeStamp \<Rightarrow> string" where
  "exampleTimeFormat ts = ''2022-03-01T10:00:00Z''"

definition exampleTimeParse :: "string \<Rightarrow> error + TimeStamp" where
  "exampleTimeParse s =
     (if s = ''2022-03-01T10:00:00Z'' then Inr exampleTime
      else Inl (libraryError ''parsing time''))"

definition examplePublisher :: Publisher where
  "examplePublisher =
     \<lparr>Category = Some ''vendor'', Name = Some ''Example Company'',
      Namespace = Some ''https://example.com'', ContactDetails = [],
      IssuingAuthority = []\<rparr>"

definition exampleMetadata :: ProviderMetadata where
  "exampleMetadata =
     (NewProviderMetadata exampleTime
        ''https://example.com/.well-known/csaf/provider-metadata.json'')
       \<lparr>Publisher := Some examplePublisher\<rparr>"

definition rolieWithoutFeeds :: ProviderMetadata where
  "rolieWithoutFeeds =
     exampleMetadata\<lparr>Distributions :=
       [\<lparr>DirectoryURL = [], Rolie = [\<lparr>Categories = [], Feeds = [], Services = []\<rparr>]\<rparr>]\<rparr>"

definition feedWithoutLabel :: ProviderMetadata where
  "feedWithoutLabel =
     exampleMetadata\<lparr>Distributions :=
       [\<lparr>DirectoryURL = [], Rolie = [\<lparr>Categories = [],
          Feeds = [\<lparr>Feed_Summary = [], Feed_TLPLabel = None, Feed_URL = None\<rparr>],
          Services = []\<rparr>]\<rparr>]\<rparr>"

definition otherCanonicalURL :: ProviderMetadata where
  "otherCanonicalURL = exampleMetadata\<lparr>CanonicalURL := Some ''https://example.com/feed''\<rparr>"

definition omittedDefaultsJSON :: json where
  "omittedDefaultsJSON =
     JObject [(''canonical_url'',
                 JString ''https://example.com/.well-known/csaf/provider-metadata.json''),
              (''last_updated'', JString ''2022-03-01T10:00:00Z''),
              (''metadata_version'', JString ''2.0''),
              (''publisher'',
                 JObject [(''category'', JString ''vendor''),
                          (''name'', JString ''Example Company''),
                          (''namespace'', JString ''https://example.com'')])]"

definition exampleFingerprint :: string where
  "exampleFingerprint = ''0123456789ABCDEF0123456789ABCDEF01234567''"

definition otherFingerprint :: string where
  "otherFingerprint = ''89ABCDEF0123456789ABCDEF0123456789ABCDEF''"

definition oneKey :: ProviderMetadata where
  "oneKey =
     exampleMetadata\<lparr>PGPKeys :=
       [\<lparr>Fingerprint = exampleFingerprint,
         PGPKey_URL = Some ''https://example.com/old.asc''\<rparr>]\<rparr>"

subsection \<open>Providers\<close>

text \<open>
  Each client answers for the provider \<open>example.com\<close>; the worker starts with no
  metadata and no location.
\<close>

definition idleWorker :: worker where
  "idleWorker = \<lparr>metadataProvider = None, loc = []\<rparr>"

definition notFoundResponse :: "error + response" where
  "notFoundResponse = Inr \<lparr>StatusCode = 404, Body = EmptyBody\<rparr>"

definition okResponse :: "body \<Rightarrow> error + response" where
  "okResponse b = Inr \<lparr>StatusCode = 200, Body = b\<rparr>"

definition thirdPathClient :: client where
  "thirdPathClient url =
     (if url = ''https://example.com/.well-known/csaf'' then notFoundResponse
      else if url = ''https://example.com/security/data/csaf'' then notFoundResponse
      else if url = ''https://example.com/advisories/csaf''
      then okResponse (JSONBody omittedDefaultsJSON)
      else Inl (libraryError ''unexpected request''))"

definition secondPathRefusedClient :: client where
  "secondPathRefusedClient url =
     (if url = ''https://example.com/.well-known/csaf'' then notFoundResponse
      else if url = ''https://example.com/security/data/csaf''
      then Inl (libraryError ''connection refused'')
      else okResponse (JSONBody omittedDefaultsJSON))"

definition htmlFirstClient :: client where
  "htmlFirstClient url =
     (if url = ''https://example.com/.well-known/csaf'' then okResponse (TextBody [''<html>''])
      else if url = ''https://example.com/security/data/csaf''
      then okResponse (JSONBody omittedDefaultsJSON)
      else Inl (libraryError ''unexpected request''))"

definition nullFirstClient :: client where
  "nullFirstClient url =
     (if url = ''https://example.com/.well-known/csaf'' then okResponse (JSONBody JNull)
      else if url = ''https://example.com/security/data/csaf''
      then okResponse (JSONBody omittedDefaultsJSON)
      else Inl (libraryError ''unexpected request''))"

definition allNullClient :: client where
  "allNullClient url =
     (if url = ''https://example.com/.well-known/security.txt'' then notFoundResponse
      else okResponse (JSONBody JNull))"

definition noCSAFClient :: client where
  "noCSAFClient url =
     (if url = ''https://example.com/.well-known/security.txt''
      then okResponse (TextBody [''Contact: mailto:security@example.com''])
      else notFoundResponse)"

definition nothingClient :: client where
  "nothingClient url = notFoundResponse"

definition csafLineClient :: client where
  "csafLineClient url =
     (if url = ''https://example.com/.well-known/security.txt''
      then okResponse (TextBody [''Contact: mailto:security@example.com'',
             ''CSAF: https://example.com/pmd/provider-metadata.json'',
             ''CSAF: https://example.com/other/provider-metadata.json''])
      else if url = ''https://example.com/pmd/provider-metadata.json''
      then okResponse (JSONBody omittedDefaultsJSON)
      else notFoundResponse)"

definition csafLineToHTMLClient :: client where
  "csafLineToHTMLClient url =
     (if url = ''https://example.com/.well-known/security.txt''
      then okResponse (TextBody [''CSAF: https://example.com/pmd/provider-metadata.json''])
      else if url = ''https://example.com/pmd/provider-metadata.json''
      then okResponse (TextBody [''<html>''])
      else notFoundResponse)"

subsection \<open>A published folder\<close>

text \<open>
  The working folder is \<open>/var/csaf\<close> and the published folder
  \<open>/var/www/.well-known/csaf-aggregator\<close>. The only configured provider is \<open>kept\<close>.
  The published folder holds the link \<open>A\<close> to the mirror \<open>/var/csaf/gone-1\<close>, the
  link \<open>B\<close> to \<open>/srv/ext\<close>, the regular file \<open>C\<close>, and the link \<open>kept\<close> to the
  mirror \<open>/var/csaf/kept-1\<close>.
\<close>

definition exampleConfig :: config where
  "exampleConfig =
     \<lparr>Providers = [''kept''], Web = [''var'', ''www''], Folder = [''var'', ''csaf'']\<rparr>"

definition published :: path where
  "published = [''var'', ''www'', ''.well-known'', ''csaf-aggregator'']"

definition exampleFS :: fs where
  "exampleFS =
     [([''var''], Dir),
      ([''var'', ''www''], Dir),
      ([''var'', ''www'', ''.well-known''], Dir),
      (published, Dir),
      ([''var'', ''csaf''], Dir),
      ([''var'', ''csaf'', ''kept-1''], Dir),
      ([''var'', ''csaf'', ''kept-1'', ''index.txt''], File),
      ([''var'', ''csaf'', ''gone-1''], Dir),
      ([''var'', ''csaf'', ''gone-1'', ''index.txt''], File),
      ([''srv''], Dir),
      ([''srv'', ''ext''], Dir),
      ([''srv'', ''ext'', ''data.txt''], File),
      (published @ [''A''], Symlink [''var'', ''csaf'', ''gone-1'']),
      (published @ [''B''], Symlink [''srv'', ''ext'']),
      (published @ [''C''], File),
      (published @ [''kept''], Symlink [''var'', ''csaf'', ''kept-1''])]"

definition sweptFS :: fs where
  "sweptFS =
     [([''var''], Dir),
      ([''var'', ''www''], Dir),
      ([''var'', ''www'', ''.well-known''], Dir),
      (published, Dir),
      ([''var'', ''csaf''], Dir),
      ([''var'', ''csaf'', ''kept-1''], Dir),
      ([''var'', ''csaf'', ''kept-1'', ''index.txt''], File),
      ([''srv''], Dir),
      ([''srv'', ''ext''], Dir),
      ([''srv'', ''ext'', ''data.txt''], File),
      (published @ [''C''], File),
      (published @ [''kept''], Symlink [''var'', ''csaf'', ''kept-1''])]"

(*PROPERTIES*)
section \<open>Properties of the metadata model\<close>

lemmas example_defs = exampleMetadata_def examplePublisher_def exampleTime_def
  NewProviderMetadata_def SetLastUpdated_def Defaults_def zeroProviderMetadata_def
  MetadataRoleProvider_def MetadataVersion20_def

subsection \<open>SetPGP\<close>

lemma SetPGP_keys_present:
  "fingerprint \<in> Fingerprint ` set ks \<Longrightarrow>
     \<exists>before k after. ks = before @ k # after \<and> fingerprint \<notin> Fingerprint ` set before \<and>
        Fingerprint k = fingerprint \<and>
        SetPGP_keys fingerprint url ks = before @ k\<lparr>PGPKey_URL := Some url\<rparr> # after"
proof (induction ks)
  case Nil
  then show ?case by simp
next
  case (Cons a ks)
  show ?case
  proof (cases "Fingerprint a = fingerprint")
    case True
    then have "a # ks = [] @ a # ks \<and> fingerprint \<notin> Fingerprint ` set [] \<and>
        Fingerprint a = fingerprint \<and>
        SetPGP_keys fingerprint url (a # ks) = [] @ a\<lparr>PGPKey_URL := Some url\<rparr> # ks"
      by simp
    then show ?thesis by blast
  next
    case False
    with Cons.prems have "fingerprint \<in> Fingerprint ` set ks" by auto
    from Cons.IH [OF this] obtain before k after where
      h: "ks = before @ k # after" "fingerprint \<notin> Fingerprint ` set before"
         "Fingerprint k = fingerprint"
         "SetPGP_keys fingerprint url ks = before @ k\<lparr>PGPKey_URL := Some url\<rparr> # after"
      by blast
    from h False have "a # ks = (a # before) @ k # after \<and>
        fingerprint \<notin> Fingerprint ` set (a # before) \<and> Fingerprint k = fingerprint \<and>
        SetPGP_keys fingerprint url (a # ks) = (a # before) @ k\<lparr>PGPKey_URL := Some url\<rparr> # after"
      by auto
    then show ?thesis by blast
  qed
qed

lemma SetPGP_keys_absent:
  "fingerprint \<notin> Fingerprint ` set ks \<Longrightarrow>
     SetPGP_keys fingerprint url ks = ks @ [\<lparr>Fingerprint = fingerprint, PGPKey_URL = Some url\<rparr>]"
  by (induction ks) auto

lemma SetPGP_keys_fingerprints:
  "fingerprint \<in> Fingerprint ` set ks \<Longrightarrow>
     map Fingerprint (SetPGP_keys fingerprint url ks) = map Fingerprint ks"
  by (induction ks) auto

lemma SetPGP_keys_twice:
  "fingerprint \<notin> Fingerprint ` set ks \<Longrightarrow>
     SetPGP_keys fingerprint url2 (SetPGP_keys fingerprint url1 ks) =
       ks @ [\<lparr>Fingerprint = fingerprint, PGPKey_URL = Some url2\<rparr>]"
  by (induction ks) auto

text \<open>
  Claim C7. \<open>SetPGP\<close> is an upsert keyed by fingerprint. When a key of the document has
  the fingerprint, the call keeps the number of keys and their fingerprints and stores
  the URL in the first such key, in place. When no key has it, the call appends one key
  with the fingerprint and the URL; a second call with the same fingerprint and another
  URL then leaves the keys of the document followed by exactly one key with that
  fingerprint, bearing the second URL. No other field of the document changes.
\<close>

theorem SetPGP_upsert:
  "(fingerprint \<in> Fingerprint ` set (PGPKeys pmd) \<longrightarrow>
      length (PGPKeys (SetPGP fingerprint url pmd)) = length (PGPKeys pmd) \<and>
      map Fingerprint (PGPKeys (SetPGP fingerprint url pmd)) = map Fingerprint (PGPKeys pmd) \<and>
      (\<exists>before k after.
         PGPKeys pmd = before @ k # after \<and>
         fingerprint \<notin> Fingerprint ` set before \<and> Fingerprint k = fingerprint \<and>
         PGPKeys (SetPGP fingerprint url pmd) = before @ k\<lparr>PGPKey_URL := Some url\<rparr> # after)) \<and>
   (fingerprint \<notin> Fingerprint ` set (PGPKeys pmd) \<longrightarrow>
      PGPKeys (SetPGP fingerprint url pmd) =
        PGPKeys pmd @ [\<lparr>Fingerprint = fingerprint, PGPKey_URL = Some url\<rparr>] \<and>
      PGPKeys (SetPGP fingerprint url2 (SetPGP fingerprint url pmd)) =
        PGPKeys pmd @ [\<lparr>Fingerprint = fingerprint, PGPKey_URL = Some url2\<rparr>] \<and>
      filter (\<lambda>k. Fingerprint k = fingerprint)
        (PGPKeys (SetPGP fingerprint url2 (SetPGP fingerprint url pmd))) =
        [\<lparr>Fingerprint = fingerprint, PGPKey_URL = Some url2\<rparr>]) \<and>
   SetPGP fingerprint url pmd = pmd\<lparr>PGPKeys := PGPKeys (SetPGP fingerprint url pmd)\<rparr>"
proof (intro conjI impI)
  assume h: "fingerprint \<in> Fingerprint ` set (PGPKeys pmd)"
  from SetPGP_keys_fingerprints [OF h]
  show m: "map Fingerprint (PGPKeys (SetPGP fingerprint url pmd)) = map Fingerprint (PGPKeys pmd)"
    by (simp add: SetPGP_def)
  from arg_cong [OF m, of length]
  show "length (PGPKeys (SetPGP fingerprint url pmd)) = length (PGPKeys pmd)"
    by simp
  from SetPGP_keys_present [OF h]
  show "\<exists>before k after.
         PGPKeys pmd = before @ k # after \<and>
         fingerprint \<notin> Fingerprint ` set before \<and> Fingerprint k = fingerprint \<and>
         PGPKeys (SetPGP fingerprint url pmd) = before @ k\<lparr>PGPKey_URL := Some url\<rparr> # after"
    by (simp add: SetPGP_def)
next
  assume h: "fingerprint \<notin> Fingerprint ` set (PGPKeys pmd)"
  show "PGPKeys (SetPGP fingerprint url pmd) =
        PGPKeys pmd @ [\<lparr>Fingerprint = fingerprint, PGPKey_URL = Some url\<rparr>]"
    using SetPGP_keys_absent [OF h] by (simp add: SetPGP_def)
  show t: "PGPKeys (SetPGP fingerprint url2 (SetPGP fingerprint url pmd)) =
        PGPKeys pmd @ [\<lparr>Fingerprint = fingerprint, PGPKey_URL = Some url2\<rparr>]"
    using SetPGP_keys_twice [OF h] by (simp add: SetPGP_def)
  have "filter (\<lambda>k. Fingerprint k = fingerprint) (PGPKeys pmd) = []"
    using h by (auto simp: filter_empty_conv)
  then show "filter (\<lambda>k. Fingerprint k = fingerprint)
        (PGPKeys (SetPGP fingerprint url2 (SetPGP fingerprint url pmd))) =
        [\<lparr>Fingerprint = fingerprint, PGPKey_URL = Some url2\<rparr>]"
    by (simp add: t)
next
  show "SetPGP fingerprint url pmd = pmd\<lparr>PGPKeys := PGPKeys (SetPGP fingerprint url pmd)\<rparr>"
    by (simp add: SetPGP_def)
qed

text \<open>
  On a document with one key: a call with the key's fingerprint replaces its URL and
  leaves one key; two calls with another fingerprint leave the old key and one new
  key with the second URL.
\<close>

theorem SetPGP_upsert_witness:
  "exampleFingerprint \<in> Fingerprint ` set (PGPKeys oneKey) \<and>
   length (PGPKeys (SetPGP exampleFingerprint ''https://example.com/new.asc'' oneKey)) = 1 \<and>
   PGPKeys (SetPGP exampleFingerprint ''https://example.com/new.asc'' oneKey) =
     [\<lparr>Fingerprint = exampleFingerprint, PGPKey_URL = Some ''https://example.com/new.asc''\<rparr>] \<and>
   otherFingerprint \<notin> Fingerprint ` set (PGPKeys oneKey) \<and>
   PGPKeys (SetPGP otherFingerprint ''https://example.com/b.asc''
              (SetPGP otherFingerprint ''https://example.com/a.asc'' oneKey)) =
     [\<lparr>Fingerprint = exampleFingerprint, PGPKey_URL = Some ''https://example.com/old.asc''\<rparr>,
      \<lparr>Fingerprint = otherFingerprint, PGPKey_URL = Some ''https://example.com/b.asc''\<rparr>] \<and>
   filter (\<lambda>k. Fingerprint k = otherFingerprint)
     (PGPKeys (SetPGP otherFingerprint ''https://example.com/b.asc''
                 (SetPGP otherFingerprint ''https://example.com/a.asc'' oneKey))) =
     [\<lparr>Fingerprint = otherFingerprint, PGPKey_URL = Some ''https://example.com/b.asc''\<rparr>]"
proof -
  have present: "exampleFingerprint \<in> Fingerprint ` set (PGPKeys oneKey)"
    by (simp add: oneKey_def)
  have absent: "otherFingerprint \<notin> Fingerprint ` set (PGPKeys oneKey)"
    by (simp add: oneKey_def exampleFingerprint_def otherFingerprint_def)
  have keys: "PGPKeys oneKey =
      [\<lparr>Fingerprint = exampleFingerprint, PGPKey_URL = Some ''https://example.com/old.asc''\<rparr>]"
    by (simp add: oneKey_def)
  have upd: "PGPKeys (SetPGP exampleFingerprint ''https://example.com/new.asc'' oneKey) =
     [\<lparr>Fingerprint = exampleFingerprint, PGPKey_URL = Some ''https://example.com/new.asc''\<rparr>]"
    by (simp add: SetPGP_def keys)
  note u = SetPGP_upsert [of exampleFingerprint oneKey "''https://example.com/new.asc''"]
  note a = SetPGP_upsert [of otherFingerprint oneKey "''https://example.com/a.asc''"
      "''https://example.com/b.asc''"]
  from u present have "length (PGPKeys (SetPGP exampleFingerprint ''https://example.com/new.asc'' oneKey))
      = length (PGPKeys oneKey)" by blast
  with a absent present keys upd show ?thesis by simp
qed

subsection \<open>Validate\<close>

lemma Distribution_Validate_loop_None: "Distribution_Validate_loop rs = None"
  by (induction rs) (auto split: option.splits)

text \<open>
  Claim C2. The claim asks \<open>Validate\<close> to reject a document with a ROLIE block without
  feeds, or with a feed without TLP label or URL. \<open>ROLIE.Validate\<close> does report the
  block, but \<open>Distribution.Validate\<close> answers nil for every distribution, so
  \<open>ProviderMetadata.Validate\<close> accepts both example documents.
\<close>

theorem Validate_accepts_invalid_rolie:
  "Distribution_Validate d = None \<and>
   ROLIE_Validate \<lparr>Categories = [], Feeds = [], Services = []\<rparr> =
     Some (errorsNew ''ROLIE needs at least one feed'') \<and>
   Validate rolieWithoutFeeds = None \<and>
   Validate feedWithoutLabel = None"
  by (simp add: Distribution_Validate_def Distribution_Validate_loop_None ROLIE_Validate_def
      Validate_def rolieWithoutFeeds_def feedWithoutLabel_def example_defs
      Publisher_Validate_def)

text \<open>
  Claim C8, as stated, fails: the example document has a canonical URL that does not
  end in \<open>/provider-metadata.json\<close>, and \<open>Validate\<close> accepts it.
\<close>

theorem Validate_ignores_url_pattern:
  "CanonicalURL otherCanonicalURL = Some ''https://example.com/feed'' \<and>
   \<not> suffix ''/provider-metadata.json'' ''https://example.com/feed'' \<and>
   Validate otherCanonicalURL = None"
  by (simp add: otherCanonicalURL_def Validate_def example_defs Publisher_Validate_def
      suffix_to_prefix)

lemma Validate_CanonicalURL_update:
  "CanonicalURL pmd \<noteq> None \<Longrightarrow> Validate (pmd\<lparr>CanonicalURL := Some u\<rparr>) = Validate pmd"
  by (cases "CanonicalURL pmd") (simp_all add: Validate_def split: option.splits)

lemma decode_bad_canonical_url:
  assumes "\<not> suffix ''/provider-metadata.json'' u"
    and "map_of ms ''canonical_url'' = Some (JString u)"
  shows "ProviderMetadata_decode timeParse (JObject ms) = Inl (fmtErrorf u)"
  using assms by (simp add: ProviderMetadata_decode_def bindE_def providerURLPattern_def
      patternUnmarshal_def)

text \<open>
  Claim C8, amended. \<open>Validate\<close> checks that the canonical URL is present: without one
  it returns the error \<open>canonical_url is mandatory\<close>, and with one its result does not
  depend on the URL's text. The pattern is checked where the text is decoded:
  \<open>ProviderURL.UnmarshalText\<close> returns an error for every text that does not end in
  \<open>/provider-metadata.json\<close>, so \<open>LoadProviderMetadata\<close> returns an error for a
  document whose \<open>canonical_url\<close> is such a text.
\<close>

theorem Validate_canonical_url_presence:
  "(CanonicalURL pmd = None \<longrightarrow>
      Validate pmd = Some (errorsNew ''canonical_url is mandatory'')) \<and>
   (CanonicalURL pmd \<noteq> None \<longrightarrow> Validate (pmd\<lparr>CanonicalURL := Some u\<rparr>) = Validate pmd) \<and>
   (\<not> suffix ''/provider-metadata.json'' u \<longrightarrow>
      providerURLPattern u = Inl (fmtErrorf u) \<and>
      (map_of ms ''canonical_url'' = Some (JString u) \<longrightarrow>
         (\<exists>err. LoadProviderMetadata timeParse (Some (JObject ms)) = Inl err)))"
proof (intro conjI impI)
  assume "CanonicalURL pmd = None"
  then show "Validate pmd = Some (errorsNew ''canonical_url is mandatory'')"
    by (simp add: Validate_def)
next
  assume "CanonicalURL pmd \<noteq> None"
  then show "Validate (pmd\<lparr>CanonicalURL := Some u\<rparr>) = Validate pmd"
    by (rule Validate_CanonicalURL_update)
next
  assume "\<not> suffix ''/provider-metadata.json'' u"
  then show "providerURLPattern u = Inl (fmtErrorf u)"
    by (simp add: providerURLPattern_def patternUnmarshal_def)
next
  assume "\<not> suffix ''/provider-metadata.json'' u"
    and "map_of ms ''canonical_url'' = Some (JString u)"
  then have "ProviderMetadata_decode timeParse (JObject ms) = Inl (fmtErrorf u)"
    by (rule decode_bad_canonical_url)
  then show "\<exists>err. LoadProviderMetadata timeParse (Some (JObject ms)) = Inl err"
    by (simp add: LoadProviderMetadata_def)
qed

text \<open>
  The empty document has no canonical URL and is refused for it; the example document
  validates the same with the URL \<open>https://example.com/feed\<close>, which the unmarshaller
  and the loader refuse.
\<close>

theorem Validate_canonical_url_presence_witness:
  "CanonicalURL zeroProviderMetadata = None \<and>
   Validate zeroProviderMetadata = Some (errorsNew ''canonical_url is mandatory'') \<and>
   CanonicalURL exampleMetadata \<noteq> None \<and>
   Validate (exampleMetadata\<lparr>CanonicalURL := Some ''https://example.com/feed''\<rparr>) =
     Validate exampleMetadata \<and>
   Validate exampleMetadata = None \<and>
   \<not> suffix ''/provider-metadata.json'' ''https://example.com/feed'' \<and>
   providerURLPattern ''https://example.com/feed'' = Inl (fmtErrorf ''https://example.com/feed'') \<and>
   map_of [(''canonical_url'', JString ''https://example.com/feed'')] ''canonical_url'' =
     Some (JString ''https://example.com/feed'') \<and>
   (\<exists>err. LoadProviderMetadata exampleTimeParse
            (Some (JObject [(''canonical_url'', JString ''https://example.com/feed'')])) =
          Inl err)"
proof -
  have absent: "CanonicalURL zeroProviderMetadata = None"
    by (simp add: zeroProviderMetadata_def)
  have present: "CanonicalURL exampleMetadata \<noteq> None"
    by (simp add: example_defs)
  have valid: "Validate exampleMetadata = None"
    by (simp add: Validate_def example_defs Publisher_Validate_def)
  have other: "\<not> suffix ''/provider-metadata.json'' ''https://example.com/feed''"
    by (simp add: suffix_to_prefix)
  have member: "map_of [(''canonical_url'', JString ''https://example.com/feed'')]
      ''canonical_url'' = Some (JString ''https://example.com/feed'')"
    by simp
  note z = Validate_canonical_url_presence [of zeroProviderMetadata]
  note e = Validate_canonical_url_presence [of exampleMetadata "''https://example.com/feed''"
      "[(''canonical_url'', JString ''https://example.com/feed'')]" exampleTimeParse]
  from z absent have 1: "Validate zeroProviderMetadata =
      Some (errorsNew ''canonical_url is mandatory'')" by blast
  from e present have 2: "Validate (exampleMetadata\<lparr>CanonicalURL :=
      Some ''https://example.com/feed''\<rparr>) = Validate exampleMetadata" by blast
  from e other have 3: "providerURLPattern ''https://example.com/feed'' =
      Inl (fmtErrorf ''https://example.com/feed'')" by blast
  from e other member have 4: "\<exists>err. LoadProviderMetadata exampleTimeParse
      (Some (JObject [(''canonical_url'', JString ''https://example.com/feed'')])) = Inl err"
    by blast
  from absent present valid other member 1 2 3 4 show ?thesis by blast
qed

subsection \<open>LoadProviderMetadata\<close>

lemma Defaults_fills:
  "Role (Defaults pmd) \<noteq> None \<and> ListOnCSAFAggregators (Defaults pmd) \<noteq> None \<and>
   MirrorOnCSAFAggregators (Defaults pmd) \<noteq> None \<and> MetadataVersion (Defaults pmd) \<noteq> None"
  by (auto simp: Defaults_def Let_def)

lemma load_omittedDefaultsJSON:
  "LoadProviderMetadata exampleTimeParse (Some omittedDefaultsJSON) = Inr exampleMetadata"
  by (simp add: LoadProviderMetadata_def omittedDefaultsJSON_def ProviderMetadata_decode_def
      bindE_def providerURLPattern_def patternUnmarshal_def suffix_to_prefix
      exampleTimeParse_def Publisher_fields_def csafCategoryPattern_def Validate_def
      Publisher_Validate_def example_defs)

text \<open>
  Claim C10. A document that \<open>LoadProviderMetadata\<close> returns is \<open>Defaults\<close> of a
  decoded document that passed \<open>Validate\<close>, and its role, its two aggregator flags and
  its metadata version are all present.
\<close>

theorem LoadProviderMetadata_defaults:
  assumes "LoadProviderMetadata timeParse r = Inr pmd"
  shows "Role pmd \<noteq> None \<and> ListOnCSAFAggregators pmd \<noteq> None \<and>
     MirrorOnCSAFAggregators pmd \<noteq> None \<and> MetadataVersion pmd \<noteq> None \<and>
     (\<exists>j decoded. r = Some j \<and> ProviderMetadata_decode timeParse j = Inr decoded \<and>
        Validate decoded = None \<and> pmd = Defaults decoded)"
proof -
  from assms obtain j decoded where
    h: "r = Some j" "ProviderMetadata_decode timeParse j = Inr decoded"
       "Validate decoded = None" "pmd = Defaults decoded"
    by (auto simp: LoadProviderMetadata_def split: option.splits sum.splits)
  from h(4) Defaults_fills [of decoded] h show ?thesis by blast
qed

text \<open>
  The example JSON has neither a role nor the two flags; the document loaded from it
  has the role \<open>csaf_provider\<close> and both flags true.
\<close>

theorem LoadProviderMetadata_defaults_witness:
  "map_of (case omittedDefaultsJSON of JObject ms \<Rightarrow> ms | _ \<Rightarrow> []) ''role'' = None \<and>
   map_of (case omittedDefaultsJSON of JObject ms \<Rightarrow> ms | _ \<Rightarrow> [])
     ''list_on_CSAF_aggregators'' = None \<and>
   map_of (case omittedDefaultsJSON of JObject ms \<Rightarrow> ms | _ \<Rightarrow> [])
     ''mirror_on_CSAF_aggregators'' = None \<and>
   LoadProviderMetadata exampleTimeParse (Some omittedDefaultsJSON) = Inr exampleMetadata \<and>
   Role exampleMetadata = Some ''csaf_provider'' \<and>
   ListOnCSAFAggregators exampleMetadata = Some True \<and>
   MirrorOnCSAFAggregators exampleMetadata = Some True \<and>
   MetadataVersion exampleMetadata = Some ''2.0'' \<and>
   Role exampleMetadata \<noteq> None \<and> ListOnCSAFAggregators exampleMetadata \<noteq> None \<and>
   MirrorOnCSAFAggregators exampleMetadata \<noteq> None \<and> MetadataVersion exampleMetadata \<noteq> None"
proof -
  note t = LoadProviderMetadata_defaults [OF load_omittedDefaultsJSON]
  have "Role exampleMetadata = Some ''csaf_provider'' \<and>
      ListOnCSAFAggregators exampleMetadata = Some True \<and>
      MirrorOnCSAFAggregators exampleMetadata = Some True \<and>
      MetadataVersion exampleMetadata = Some ''2.0''"
    by (simp add: example_defs)
  moreover have "map_of (case omittedDefaultsJSON of JObject ms \<Rightarrow> ms | _ \<Rightarrow> []) ''role'' = None \<and>
      map_of (case omittedDefaultsJSON of JObject ms \<Rightarrow> ms | _ \<Rightarrow> [])
        ''list_on_CSAF_aggregators'' = None \<and>
      map_of (case omittedDefaultsJSON of JObject ms \<Rightarrow> ms | _ \<Rightarrow> [])
        ''mirror_on_CSAF_aggregators'' = None"
    by (simp add: omittedDefaultsJSON_def)
  ultimately show ?thesis using t load_omittedDefaultsJSON by blast
qed

section \<open>Properties of discovery\<close>

lemmas locate_eval = locateProviderMetadata_def Let_def httpsDomain_def
  providerMetadataLocations_def notFoundResponse_def okResponse_def
  idleWorker_def StatusOK_def omittedDefaultsJSON_def trimSpace_def

lemma downloadJSON_download:
  "downloadJSON c url download w =
     (case c url of
        Inl err \<Rightarrow> (Some err, w)
      | Inr res \<Rightarrow>
          if StatusCode res \<noteq> StatusOK \<or> Body res = EmptyBody then (Some errNotFound, w)
          else (case decodeInterface (Body res) of
                  Inl err \<Rightarrow> (Some errNotFound, w)
                | Inr v \<Rightarrow> (None, w\<lparr>metadataProvider := v\<rparr>)))"
  by (simp add: downloadJSON_def download_def split: sum.splits)

lemma downloadJSON_error_worker:
  "downloadJSON c url download w = (Some err, w1) \<Longrightarrow> w1 = w"
  by (auto simp: downloadJSON_download split: sum.splits if_splits)

lemma downloadJSON_fst_worker:
  "fst (downloadJSON c url download w) = fst (downloadJSON c url download w')"
  by (auto simp: downloadJSON_download split: sum.splits if_splits)

lemma locateLoop_notFound:
  assumes "fst (downloadJSON c (hd' @ ''/'' @ l) download w) = Some errNotFound"
  shows "locateLoop c hd' (l # ls) w requested =
           locateLoop c hd' ls w (requested @ [hd' @ ''/'' @ l])"
proof -
  obtain r w1 where d: "downloadJSON c (hd' @ ''/'' @ l) download w = (r, w1)"
    by (cases "downloadJSON c (hd' @ ''/'' @ l) download w")
  with assms have r: "r = Some errNotFound" by simp
  with d have "w1 = w" by (simp add: downloadJSON_error_worker)
  with d r show ?thesis by simp
qed

lemma locateLoop_skip:
  assumes "\<forall>p \<in> set pre. fst (downloadJSON c (hd' @ ''/'' @ p) download w) = Some errNotFound"
  shows "locateLoop c hd' (pre @ ls) w requested =
           locateLoop c hd' ls w (requested @ map (\<lambda>p. hd' @ ''/'' @ p) pre)"
  using assms
proof (induction pre arbitrary: requested)
  case Nil
  then show ?case by simp
next
  case (Cons p pre)
  from Cons.prems have "fst (downloadJSON c (hd' @ ''/'' @ p) download w) = Some errNotFound"
    by simp
  from locateLoop_notFound [OF this]
  have "locateLoop c hd' ((p # pre) @ ls) w requested =
          locateLoop c hd' (pre @ ls) w (requested @ [hd' @ ''/'' @ p])"
    by simp
  also have "\<dots> = locateLoop c hd' ls w
      ((requested @ [hd' @ ''/'' @ p]) @ map (\<lambda>p. hd' @ ''/'' @ p) pre)"
    using Cons.prems by (intro Cons.IH) simp
  finally show ?case by simp
qed

lemma locateLoop_hard:
  assumes "downloadJSON c (hd' @ ''/'' @ l) download w = (Some err, w1)" "err \<noteq> errNotFound"
  shows "locateLoop c hd' (l # ls) w requested =
           (Some (Some err), w, requested @ [hd' @ ''/'' @ l])"
  using assms downloadJSON_error_worker [OF assms(1)] by simp

lemma locateLoop_found:
  assumes "downloadJSON c (hd' @ ''/'' @ l) download w = (None, w1)"
    "metadataProvider w1 \<noteq> None"
  shows "locateLoop c hd' (l # ls) w requested =
           (Some None, w1\<lparr>loc := l\<rparr>, requested @ [hd' @ ''/'' @ l])"
  using assms by simp

text \<open>
  Claim C3. The locations are the four well-known paths in the fixed order. Split the
  list at a location: if \<open>downloadJSON\<close> reports \<open>errNotFound\<close> for every location
  before it, then a hard error at it ends the resolver with that error, and a success
  with a document ends it with nil and that location recorded; in both cases the
  requests made are those for the locations before it and for it, in order, and
  nothing else: no later location and no \<open>security.txt\<close>.
\<close>

theorem locateProviderMetadata_order:
  assumes "providerMetadataLocations = pre @ l # post"
    and "\<forall>p \<in> set pre.
           fst (downloadJSON c (httpsDomain domain @ ''/'' @ p) download
                  (w\<lparr>metadataProvider := None\<rparr>)) = Some errNotFound"
  shows "providerMetadataLocations =
           [''.well-known/csaf'', ''security/data/csaf'', ''advisories/csaf'', ''security/csaf''] \<and>
         (\<forall>err w1.
            downloadJSON c (httpsDomain domain @ ''/'' @ l) download
              (w\<lparr>metadataProvider := None\<rparr>) = (Some err, w1) \<and> err \<noteq> errNotFound \<longrightarrow>
            locateProviderMetadata extract c domain w =
              (Some err, w\<lparr>metadataProvider := None\<rparr>,
               map (\<lambda>p. httpsDomain domain @ ''/'' @ p) (pre @ [l]))) \<and>
         (\<forall>w1.
            downloadJSON c (httpsDomain domain @ ''/'' @ l) download
              (w\<lparr>metadataProvider := None\<rparr>) = (None, w1) \<and> metadataProvider w1 \<noteq> None \<longrightarrow>
            locateProviderMetadata extract c domain w =
              (None, w1\<lparr>loc := l\<rparr>, map (\<lambda>p. httpsDomain domain @ ''/'' @ p) (pre @ [l])))"
proof (intro conjI allI impI)
  show "providerMetadataLocations =
      [''.well-known/csaf'', ''security/data/csaf'', ''advisories/csaf'', ''security/csaf'']"
    by (simp add: providerMetadataLocations_def)
next
  fix err w1
  assume h: "downloadJSON c (httpsDomain domain @ ''/'' @ l) download
      (w\<lparr>metadataProvider := None\<rparr>) = (Some err, w1) \<and> err \<noteq> errNotFound"
  have "locateLoop c (httpsDomain domain) providerMetadataLocations
      (w\<lparr>metadataProvider := None\<rparr>) [] =
      locateLoop c (httpsDomain domain) (l # post) (w\<lparr>metadataProvider := None\<rparr>)
        ([] @ map (\<lambda>p. httpsDomain domain @ ''/'' @ p) pre)"
    unfolding assms(1) using assms(2) by (rule locateLoop_skip)
  also have "\<dots> = (Some (Some err), w\<lparr>metadataProvider := None\<rparr>,
      ([] @ map (\<lambda>p. httpsDomain domain @ ''/'' @ p) pre) @ [httpsDomain domain @ ''/'' @ l])"
    using h by (intro locateLoop_hard) auto
  finally show "locateProviderMetadata extract c domain w =
      (Some err, w\<lparr>metadataProvider := None\<rparr>,
       map (\<lambda>p. httpsDomain domain @ ''/'' @ p) (pre @ [l]))"
    by (simp add: locateProviderMetadata_def Let_def)
next
  fix w1
  assume h: "downloadJSON c (httpsDomain domain @ ''/'' @ l) download
      (w\<lparr>metadataProvider := None\<rparr>) = (None, w1) \<and> metadataProvider w1 \<noteq> None"
  have "locateLoop c (httpsDomain domain) providerMetadataLocations
      (w\<lparr>metadataProvider := None\<rparr>) [] =
      locateLoop c (httpsDomain domain) (l # post) (w\<lparr>metadataProvider := None\<rparr>)
        ([] @ map (\<lambda>p. httpsDomain domain @ ''/'' @ p) pre)"
    unfolding assms(1) using assms(2) by (rule locateLoop_skip)
  also have "\<dots> = (Some None, w1\<lparr>loc := l\<rparr>,
      ([] @ map (\<lambda>p. httpsDomain domain @ ''/'' @ p) pre) @ [httpsDomain domain @ ''/'' @ l])"
    using h by (intro locateLoop_found) auto
  finally show "locateProviderMetadata extract c domain w =
      (None, w1\<lparr>loc := l\<rparr>, map (\<lambda>p. httpsDomain domain @ ''/'' @ p) (pre @ [l]))"
    by (simp add: locateProviderMetadata_def Let_def)
qed

text \<open>
  The provider answers NotFound on the first two paths and with a document on the
  third: the resolver requests the three in order, records \<open>advisories/csaf\<close> and
  never requests \<open>security.txt\<close>. Another provider refuses the connection on the
  second path: the resolver returns that error after two requests.
\<close>

theorem locateProviderMetadata_order_witness:
  "providerMetadataLocations =
     [''.well-known/csaf'', ''security/data/csaf''] @ ''advisories/csaf'' # [''security/csaf''] \<and>
   fst (downloadJSON thirdPathClient ''https://example.com/.well-known/csaf'' download
          idleWorker) = Some errNotFound \<and>
   fst (downloadJSON thirdPathClient ''https://example.com/security/data/csaf'' download
          idleWorker) = Some errNotFound \<and>
   locateProviderMetadata ExtractProviderURL thirdPathClient ''example.com'' idleWorker =
     (None, \<lparr>metadataProvider = Some omittedDefaultsJSON, loc = ''advisories/csaf''\<rparr>,
      [''https://example.com/.well-known/csaf'', ''https://example.com/security/data/csaf'',
       ''https://example.com/advisories/csaf'']) \<and>
   ''https://example.com/.well-known/security.txt'' \<notin>
     set [''https://example.com/.well-known/csaf'', ''https://example.com/security/data/csaf'',
          ''https://example.com/advisories/csaf''] \<and>
   locateProviderMetadata ExtractProviderURL secondPathRefusedClient ''example.com'' idleWorker =
     (Some (libraryError ''connection refused''), idleWorker,
      [''https://example.com/.well-known/csaf'', ''https://example.com/security/data/csaf''])"
proof -
  have split3: "providerMetadataLocations =
      [''.well-known/csaf'', ''security/data/csaf''] @ ''advisories/csaf'' # [''security/csaf'']"
    by (simp add: providerMetadataLocations_def)
  have split2: "providerMetadataLocations =
      [''.well-known/csaf''] @ ''security/data/csaf'' # [''advisories/csaf'', ''security/csaf'']"
    by (simp add: providerMetadataLocations_def)
  have idle: "idleWorker\<lparr>metadataProvider := None\<rparr> = idleWorker"
    by (simp add: idleWorker_def)
  have hd: "httpsDomain ''example.com'' = ''https://example.com''"
    by (simp add: httpsDomain_def)
  have m1: "fst (downloadJSON thirdPathClient ''https://example.com/.well-known/csaf'' download
      idleWorker) = Some errNotFound"
    by (simp add: downloadJSON_download thirdPathClient_def locate_eval)
  have m2: "fst (downloadJSON thirdPathClient ''https://example.com/security/data/csaf'' download
      idleWorker) = Some errNotFound"
    by (simp add: downloadJSON_download thirdPathClient_def locate_eval)
  have hit: "downloadJSON thirdPathClient ''https://example.com/advisories/csaf'' download
      idleWorker = (None, \<lparr>metadataProvider = Some omittedDefaultsJSON, loc = []\<rparr>)"
    by (simp add: downloadJSON_download thirdPathClient_def locate_eval)
  have r1: "fst (downloadJSON secondPathRefusedClient ''https://example.com/.well-known/csaf''
      download idleWorker) = Some errNotFound"
    by (simp add: downloadJSON_download secondPathRefusedClient_def locate_eval)
  have refused: "downloadJSON secondPathRefusedClient ''https://example.com/security/data/csaf''
      download idleWorker = (Some (libraryError ''connection refused''), idleWorker)"
    by (simp add: downloadJSON_download secondPathRefusedClient_def locate_eval)
  have pre3: "\<forall>p \<in> set [''.well-known/csaf'', ''security/data/csaf''].
      fst (downloadJSON thirdPathClient (httpsDomain ''example.com'' @ ''/'' @ p) download
             (idleWorker\<lparr>metadataProvider := None\<rparr>)) = Some errNotFound"
    using m1 m2 by (simp add: idle hd)
  have pre2: "\<forall>p \<in> set [''.well-known/csaf''].
      fst (downloadJSON secondPathRefusedClient (httpsDomain ''example.com'' @ ''/'' @ p) download
             (idleWorker\<lparr>metadataProvider := None\<rparr>)) = Some errNotFound"
    using r1 by (simp add: idle hd)
  from locateProviderMetadata_order [OF split3 pre3, of ExtractProviderURL] hit
  have found: "locateProviderMetadata ExtractProviderURL thirdPathClient ''example.com''
      idleWorker =
      (None, \<lparr>metadataProvider = Some omittedDefaultsJSON, loc = ''advisories/csaf''\<rparr>,
       [''https://example.com/.well-known/csaf'', ''https://example.com/security/data/csaf'',
        ''https://example.com/advisories/csaf''])"
    by (simp add: idle hd)
  from locateProviderMetadata_order [OF split2 pre2, of ExtractProviderURL] refused
  have hard: "locateProviderMetadata ExtractProviderURL secondPathRefusedClient ''example.com''
      idleWorker =
      (Some (libraryError ''connection refused''), idleWorker,
       [''https://example.com/.well-known/csaf'', ''https://example.com/security/data/csaf''])"
    by (simp add: idle hd)
  from split3 m1 m2 found hard show ?thesis by simp
qed

lemma nullBody_download:
  assumes "nullBody c url" "metadataProvider w = None"
  shows "downloadJSON c url download w = (None, w)"
proof -
  from assms(1) obtain res where r: "c url = Inr res" "StatusCode res = StatusOK"
      "Body res = JSONBody JNull"
    by (auto simp: nullBody_def split: sum.splits)
  have "w\<lparr>metadataProvider := None\<rparr> = w" using assms(2) by simp
  with r show ?thesis by (simp add: downloadJSON_download)
qed

lemma locateLoop_null:
  assumes "nullBody c (hd' @ ''/'' @ l)" "metadataProvider w = None"
  shows "locateLoop c hd' (l # ls) w requested =
           locateLoop c hd' ls w (requested @ [hd' @ ''/'' @ l])"
  using nullBody_download [OF assms] assms(2) by simp

lemma locateLoop_all_miss:
  assumes "metadataProvider w = None"
    and "\<forall>l \<in> set ls. nullBody c (hd' @ ''/'' @ l) \<or>
           fst (downloadJSON c (hd' @ ''/'' @ l) download w) = Some errNotFound"
  shows "locateLoop c hd' ls w requested =
           (None, w, requested @ map (\<lambda>l. hd' @ ''/'' @ l) ls)"
  using assms(2)
proof (induction ls arbitrary: requested)
  case Nil
  then show ?case by simp
next
  case (Cons l ls)
  from Cons.prems have "nullBody c (hd' @ ''/'' @ l) \<or>
      fst (downloadJSON c (hd' @ ''/'' @ l) download w) = Some errNotFound" by simp
  then have "locateLoop c hd' (l # ls) w requested =
      locateLoop c hd' ls w (requested @ [hd' @ ''/'' @ l])"
    using locateLoop_null [OF _ assms(1)] locateLoop_notFound by blast
  also have "\<dots> = (None, w, (requested @ [hd' @ ''/'' @ l]) @ map (\<lambda>l. hd' @ ''/'' @ l) ls)"
    using Cons.prems by (intro Cons.IH) simp
  finally show ?case by simp
qed

lemma decodeInterface_Some:
  "decodeInterface b = Inr (Some j) \<Longrightarrow> b = JSONBody j \<and> j \<noteq> JNull"
  by (cases b rule: decodeInterface.cases) auto

lemma locateLoop_success:
  assumes "metadataProvider w = None"
    and "locateLoop c hd' ls w requested = (Some None, w', requested')"
  shows "\<exists>l res j. l \<in> set ls \<and> c (hd' @ ''/'' @ l) = Inr res \<and> StatusCode res = StatusOK \<and>
           Body res = JSONBody j \<and> j \<noteq> JNull \<and> metadataProvider w' = Some j \<and> loc w' = l"
  using assms(2)
proof (induction ls arbitrary: requested)
  case Nil
  then show ?case by simp
next
  case (Cons l ls)
  obtain r w1 where d: "downloadJSON c (hd' @ ''/'' @ l) download w = (r, w1)"
    by (cases "downloadJSON c (hd' @ ''/'' @ l) download w")
  show ?case
  proof (cases r)
    case (Some err)
    with d have w1: "w1 = w" by (simp add: downloadJSON_error_worker)
    from Cons.prems d Some w1
    have "locateLoop c hd' ls w (requested @ [hd' @ ''/'' @ l]) = (Some None, w', requested')"
      by (simp add: Let_def split: if_splits)
    from Cons.IH [OF this] show ?thesis by auto
  next
    case None
    show ?thesis
    proof (cases "metadataProvider w1")
      case mp: None
      from d \<open>r = None\<close> have "w1 = w\<lparr>metadataProvider := metadataProvider w1\<rparr>"
        by (auto simp: downloadJSON_download split: sum.splits if_splits)
      with mp assms(1) have w1: "w1 = w" by simp
      from Cons.prems d \<open>r = None\<close> mp w1
      have "locateLoop c hd' ls w (requested @ [hd' @ ''/'' @ l]) = (Some None, w', requested')"
        by (simp add: Let_def)
      from Cons.IH [OF this] show ?thesis by auto
    next
      case (Some j)
      from d \<open>r = None\<close> obtain res v where
        res: "c (hd' @ ''/'' @ l) = Inr res" "StatusCode res = StatusOK"
          "decodeInterface (Body res) = Inr v" "w1 = w\<lparr>metadataProvider := v\<rparr>"
        by (auto simp: downloadJSON_download split: sum.splits if_splits)
      with Some have "decodeInterface (Body res) = Inr (Some j)" by simp
      from decodeInterface_Some [OF this] have b: "Body res = JSONBody j" "j \<noteq> JNull" by auto
      from Cons.prems d \<open>r = None\<close> Some have "w' = w1\<lparr>loc := l\<rparr>" by (simp add: Let_def)
      with Some have "metadataProvider w' = Some j" "loc w' = l" by simp_all
      with res b show ?thesis by auto
    qed
  qed
qed

text \<open>
  Claim C9. In the loop over the well-known locations, with no metadata decoded so far
  (the resolver clears it first): a success whose body is the JSON value \<open>null\<close> takes
  the loop to the next location with the worker unchanged, exactly as a NotFound does;
  when every location answers \<open>null\<close>, the loop runs to its end, where
  \<open>security.txt\<close> is next; and when the loop ends the resolver with success, some
  location answered with a JSON value other than \<open>null\<close>, which is the metadata, and
  that location is the one recorded.
\<close>

theorem locateProviderMetadata_null_document:
  assumes "metadataProvider w = None"
  shows "(nullBody c (hd' @ ''/'' @ l) \<longrightarrow>
            locateLoop c hd' (l # ls) w requested =
              locateLoop c hd' ls w (requested @ [hd' @ ''/'' @ l])) \<and>
         (fst (downloadJSON c (hd' @ ''/'' @ l) download w) = Some errNotFound \<longrightarrow>
            locateLoop c hd' (l # ls) w requested =
              locateLoop c hd' ls w (requested @ [hd' @ ''/'' @ l])) \<and>
         ((\<forall>p \<in> set ls. nullBody c (hd' @ ''/'' @ p)) \<longrightarrow>
            locateLoop c hd' ls w requested =
              (None, w, requested @ map (\<lambda>p. hd' @ ''/'' @ p) ls)) \<and>
         (\<forall>w' requested'.
            locateLoop c hd' ls w requested = (Some None, w', requested') \<longrightarrow>
            (\<exists>p res j. p \<in> set ls \<and> c (hd' @ ''/'' @ p) = Inr res \<and>
               StatusCode res = StatusOK \<and> Body res = JSONBody j \<and> j \<noteq> JNull \<and>
               metadataProvider w' = Some j \<and> loc w' = p))"
proof (intro conjI impI allI)
  assume "nullBody c (hd' @ ''/'' @ l)"
  then show "locateLoop c hd' (l # ls) w requested =
      locateLoop c hd' ls w (requested @ [hd' @ ''/'' @ l])"
    using assms by (rule locateLoop_null)
next
  assume "fst (downloadJSON c (hd' @ ''/'' @ l) download w) = Some errNotFound"
  then show "locateLoop c hd' (l # ls) w requested =
      locateLoop c hd' ls w (requested @ [hd' @ ''/'' @ l])"
    by (rule locateLoop_notFound)
next
  assume "\<forall>p \<in> set ls. nullBody c (hd' @ ''/'' @ p)"
  then show "locateLoop c hd' ls w requested =
      (None, w, requested @ map (\<lambda>p. hd' @ ''/'' @ p) ls)"
    using assms by (intro locateLoop_all_miss) auto
next
  fix w' requested'
  assume "locateLoop c hd' ls w requested = (Some None, w', requested')"
  with assms show "\<exists>p res j. p \<in> set ls \<and> c (hd' @ ''/'' @ p) = Inr res \<and>
      StatusCode res = StatusOK \<and> Body res = JSONBody j \<and> j \<noteq> JNull \<and>
      metadataProvider w' = Some j \<and> loc w' = p"
    by (rule locateLoop_success)
qed


text \<open>
  The first provider answers \<open>null\<close> on the first path and a document on the second,
  which is the location recorded. The second answers \<open>null\<close> on all four paths: the
  resolver goes on to \<open>security.txt\<close> and reports \<open>errNotFound\<close>.
\<close>

theorem locateProviderMetadata_null_document_witness:
  "metadataProvider idleWorker = None \<and>
   nullBody nullFirstClient ''https://example.com/.well-known/csaf'' \<and>
   locateLoop nullFirstClient ''https://example.com'' providerMetadataLocations idleWorker [] =
     locateLoop nullFirstClient ''https://example.com'' (tl providerMetadataLocations) idleWorker
       [''https://example.com/.well-known/csaf''] \<and>
   locateProviderMetadata ExtractProviderURL nullFirstClient ''example.com'' idleWorker =
     (None, \<lparr>metadataProvider = Some omittedDefaultsJSON, loc = ''security/data/csaf''\<rparr>,
      [''https://example.com/.well-known/csaf'', ''https://example.com/security/data/csaf'']) \<and>
   okResponse (JSONBody omittedDefaultsJSON) =
     nullFirstClient ''https://example.com/security/data/csaf'' \<and>
   omittedDefaultsJSON \<noteq> JNull \<and>
   list_all (\<lambda>p. nullBody allNullClient (''https://example.com'' @ ''/'' @ p))
     providerMetadataLocations \<and>
   locateLoop allNullClient ''https://example.com'' providerMetadataLocations idleWorker [] =
     (None, idleWorker,
      [''https://example.com/.well-known/csaf'', ''https://example.com/security/data/csaf'',
       ''https://example.com/advisories/csaf'', ''https://example.com/security/csaf'']) \<and>
   locateProviderMetadata ExtractProviderURL allNullClient ''example.com'' idleWorker =
     (Some errNotFound, idleWorker,
      [''https://example.com/.well-known/csaf'', ''https://example.com/security/data/csaf'',
       ''https://example.com/advisories/csaf'', ''https://example.com/security/csaf'',
       ''https://example.com/.well-known/security.txt''])"
proof -
  have idle: "metadataProvider idleWorker = None"
    by (simp add: idleWorker_def)
  have first: "nullBody nullFirstClient (''https://example.com'' @ ''/'' @ ''.well-known/csaf'')"
    by (simp add: nullBody_def nullFirstClient_def okResponse_def StatusOK_def)
  have all: "\<forall>p \<in> set providerMetadataLocations.
      nullBody allNullClient (''https://example.com'' @ ''/'' @ p)"
    by (simp add: nullBody_def allNullClient_def okResponse_def StatusOK_def
        providerMetadataLocations_def)
  note n = locateProviderMetadata_null_document [OF idle, of nullFirstClient
      "''https://example.com''" "''.well-known/csaf''" "tl providerMetadataLocations" "[]"]
  note a = locateProviderMetadata_null_document [OF idle, of allNullClient
      "''https://example.com''" "''.well-known/csaf''" providerMetadataLocations "[]"]
  from n first have step: "locateLoop nullFirstClient ''https://example.com''
      providerMetadataLocations idleWorker [] =
      locateLoop nullFirstClient ''https://example.com'' (tl providerMetadataLocations)
        idleWorker [''https://example.com/.well-known/csaf'']"
    by (simp add: providerMetadataLocations_def)
  from a all have through: "locateLoop allNullClient ''https://example.com''
      providerMetadataLocations idleWorker [] =
      (None, idleWorker,
       [''https://example.com/.well-known/csaf'', ''https://example.com/security/data/csaf'',
        ''https://example.com/advisories/csaf'', ''https://example.com/security/csaf''])"
    by (simp add: providerMetadataLocations_def)
  have e1: "locateProviderMetadata ExtractProviderURL nullFirstClient ''example.com'' idleWorker =
     (None, \<lparr>metadataProvider = Some omittedDefaultsJSON, loc = ''security/data/csaf''\<rparr>,
      [''https://example.com/.well-known/csaf'', ''https://example.com/security/data/csaf''])"
    by (simp add: locate_eval downloadJSON_download nullFirstClient_def)
  have e2: "locateProviderMetadata ExtractProviderURL allNullClient ''example.com'' idleWorker =
     (Some errNotFound, idleWorker,
      [''https://example.com/.well-known/csaf'', ''https://example.com/security/data/csaf'',
       ''https://example.com/advisories/csaf'', ''https://example.com/security/csaf'',
       ''https://example.com/.well-known/security.txt''])"
    by (simp add: locate_eval downloadJSON_download allNullClient_def)
  have doc: "okResponse (JSONBody omittedDefaultsJSON) =
      nullFirstClient ''https://example.com/security/data/csaf''"
    by (simp add: nullFirstClient_def)
  have nonnull: "omittedDefaultsJSON \<noteq> JNull"
    by (simp add: omittedDefaultsJSON_def)
  from idle first step e1 doc nonnull all through e2 show ?thesis
    by (simp add: list_all_iff)
qed

text \<open>
  Claim C4, as stated, fails: the first well-known path answers with a body that is no
  JSON text, the decoder fails on it, and the resolver goes on to the second path and
  succeeds there.
\<close>

theorem decode_error_does_not_abort:
  "decodeInterface (TextBody [''<html>'']) = Inl (libraryError ''json: invalid character'') \<and>
   htmlFirstClient ''https://example.com/.well-known/csaf'' = okResponse (TextBody [''<html>'']) \<and>
   locateProviderMetadata ExtractProviderURL htmlFirstClient ''example.com'' idleWorker =
     (None, \<lparr>metadataProvider = Some omittedDefaultsJSON, loc = ''security/data/csaf''\<rparr>,
      [''https://example.com/.well-known/csaf'', ''https://example.com/security/data/csaf''])"
  by (simp add: locate_eval downloadJSON_download htmlFirstClient_def)

lemma download_decode_error:
  "decodeInterface b = Inl err \<Longrightarrow> download b w = (Some errNotFound, w)"
  by (simp add: download_def)

lemma downloadJSON_decode_error:
  assumes "c url = Inr res" "StatusCode res = StatusOK" "decodeInterface (Body res) = Inl err"
  shows "downloadJSON c url download w = (Some errNotFound, w)"
  using assms by (simp add: downloadJSON_download)

text \<open>
  Claim C4, amended. A JSON decoding error of the response body is logged by the
  closure \<open>download\<close> and reported as \<open>errNotFound\<close>, the worker unchanged. At a
  well-known location the resolver therefore goes on to the next location, and at the
  location taken from \<open>security.txt\<close> it returns \<open>errNotFound\<close>.
\<close>

theorem decode_error_is_notFound:
  "(decodeInterface b = Inl err \<longrightarrow> download b w = (Some errNotFound, w)) \<and>
   (c (hd' @ ''/'' @ l) = Inr res \<and> StatusCode res = StatusOK \<and>
    decodeInterface (Body res) = Inl err \<longrightarrow>
      locateLoop c hd' (l # ls) w requested =
        locateLoop c hd' ls w (requested @ [hd' @ ''/'' @ l])) \<and>
   (locateLoop c (httpsDomain domain) providerMetadataLocations
      (w\<lparr>metadataProvider := None\<rparr>) [] = (None, w1, requested1) \<and>
    c (httpsDomain domain @ ''/.well-known/security.txt'') = Inr sres \<and>
    StatusCode sres = StatusOK \<and> extract (Body sres) = Inr (u # us) \<and>
    c u = Inr res \<and> StatusCode res = StatusOK \<and> decodeInterface (Body res) = Inl err \<longrightarrow>
      locateProviderMetadata extract c domain w =
        (Some errNotFound, w1\<lparr>loc := u\<rparr>,
         requested1 @ [httpsDomain domain @ ''/.well-known/security.txt'', u]))"
proof (intro conjI impI)
  assume "decodeInterface b = Inl err"
  then show "download b w = (Some errNotFound, w)"
    by (rule download_decode_error)
next
  assume "c (hd' @ ''/'' @ l) = Inr res \<and> StatusCode res = StatusOK \<and>
    decodeInterface (Body res) = Inl err"
  then have "downloadJSON c (hd' @ ''/'' @ l) download w = (Some errNotFound, w)"
    by (intro downloadJSON_decode_error) auto
  then have "fst (downloadJSON c (hd' @ ''/'' @ l) download w) = Some errNotFound"
    by simp
  then show "locateLoop c hd' (l # ls) w requested =
      locateLoop c hd' ls w (requested @ [hd' @ ''/'' @ l])"
    by (rule locateLoop_notFound)
next
  assume h: "locateLoop c (httpsDomain domain) providerMetadataLocations
      (w\<lparr>metadataProvider := None\<rparr>) [] = (None, w1, requested1) \<and>
    c (httpsDomain domain @ ''/.well-known/security.txt'') = Inr sres \<and>
    StatusCode sres = StatusOK \<and> extract (Body sres) = Inr (u # us) \<and>
    c u = Inr res \<and> StatusCode res = StatusOK \<and> decodeInterface (Body res) = Inl err"
  then have "downloadJSON c u download (w1\<lparr>loc := u\<rparr>) = (Some errNotFound, w1\<lparr>loc := u\<rparr>)"
    by (intro downloadJSON_decode_error) auto
  with h show "locateProviderMetadata extract c domain w =
      (Some errNotFound, w1\<lparr>loc := u\<rparr>,
       requested1 @ [httpsDomain domain @ ''/.well-known/security.txt'', u])"
    by (simp add: locateProviderMetadata_def Let_def)
qed

text \<open>
  The body \<open><html>\<close> is no JSON text. On the first well-known path it takes the
  resolver to the second; behind the URL of the \<open>CSAF:\<close> line of \<open>security.txt\<close> it
  makes the resolver return \<open>errNotFound\<close>.
\<close>

theorem decode_error_is_notFound_witness:
  "decodeInterface (TextBody [''<html>'']) = Inl (libraryError ''json: invalid character'') \<and>
   download (TextBody [''<html>'']) idleWorker = (Some errNotFound, idleWorker) \<and>
   htmlFirstClient ''https://example.com/.well-known/csaf'' = okResponse (TextBody [''<html>'']) \<and>
   locateLoop htmlFirstClient ''https://example.com'' providerMetadataLocations idleWorker [] =
     locateLoop htmlFirstClient ''https://example.com'' (tl providerMetadataLocations) idleWorker
       [''https://example.com/.well-known/csaf''] \<and>
   locateLoop csafLineToHTMLClient (httpsDomain ''example.com'') providerMetadataLocations
     (idleWorker\<lparr>metadataProvider := None\<rparr>) [] =
     (None, idleWorker,
      [''https://example.com/.well-known/csaf'', ''https://example.com/security/data/csaf'',
       ''https://example.com/advisories/csaf'', ''https://example.com/security/csaf'']) \<and>
   ExtractProviderURL (TextBody [''CSAF: https://example.com/pmd/provider-metadata.json'']) =
     Inr [''https://example.com/pmd/provider-metadata.json''] \<and>
   csafLineToHTMLClient ''https://example.com/pmd/provider-metadata.json'' =
     okResponse (TextBody [''<html>'']) \<and>
   locateProviderMetadata ExtractProviderURL csafLineToHTMLClient ''example.com'' idleWorker =
     (Some errNotFound,
      \<lparr>metadataProvider = None, loc = ''https://example.com/pmd/provider-metadata.json''\<rparr>,
      [''https://example.com/.well-known/csaf'', ''https://example.com/security/data/csaf'',
       ''https://example.com/advisories/csaf'', ''https://example.com/security/csaf'',
       ''https://example.com/.well-known/security.txt'',
       ''https://example.com/pmd/provider-metadata.json''])"
proof -
  have dec: "decodeInterface (TextBody [''<html>'']) = Inl (libraryError ''json: invalid character'')"
    by simp
  have first: "htmlFirstClient (''https://example.com'' @ ''/'' @ ''.well-known/csaf'') =
      Inr \<lparr>StatusCode = 200, Body = TextBody [''<html>'']\<rparr>"
    by (simp add: htmlFirstClient_def okResponse_def)
  have loop: "locateLoop csafLineToHTMLClient (httpsDomain ''example.com'')
      providerMetadataLocations (idleWorker\<lparr>metadataProvider := None\<rparr>) [] =
      (None, idleWorker,
       [''https://example.com/.well-known/csaf'', ''https://example.com/security/data/csaf'',
        ''https://example.com/advisories/csaf'', ''https://example.com/security/csaf''])"
    by (simp add: locate_eval downloadJSON_download csafLineToHTMLClient_def)
  have sec: "csafLineToHTMLClient (httpsDomain ''example.com'' @ ''/.well-known/security.txt'') =
      Inr \<lparr>StatusCode = 200,
           Body = TextBody [''CSAF: https://example.com/pmd/provider-metadata.json'']\<rparr>"
    by (simp add: csafLineToHTMLClient_def okResponse_def httpsDomain_def)
  have ext: "ExtractProviderURL (TextBody [''CSAF: https://example.com/pmd/provider-metadata.json''])
      = Inr [''https://example.com/pmd/provider-metadata.json'']"
    by (simp add: trimSpace_def)
  have final: "csafLineToHTMLClient ''https://example.com/pmd/provider-metadata.json'' =
      Inr \<lparr>StatusCode = 200, Body = TextBody [''<html>'']\<rparr>"
    by (simp add: csafLineToHTMLClient_def okResponse_def)
  note t1 = decode_error_is_notFound [of "TextBody [''<html>'']"
      "libraryError ''json: invalid character''" idleWorker htmlFirstClient
      "''https://example.com''" "''.well-known/csaf''"
      "\<lparr>StatusCode = 200, Body = TextBody [''<html>'']\<rparr>"
      "tl providerMetadataLocations" "[]"]
  note t2 = decode_error_is_notFound [of "TextBody [''<html>'']"
      "libraryError ''json: invalid character''" idleWorker csafLineToHTMLClient
      "''https://example.com''" "''.well-known/csaf''"
      "\<lparr>StatusCode = 200, Body = TextBody [''<html>'']\<rparr>"
      "tl providerMetadataLocations" "[]" "''example.com''" idleWorker
      "[''https://example.com/.well-known/csaf'', ''https://example.com/security/data/csaf'',
        ''https://example.com/advisories/csaf'', ''https://example.com/security/csaf'']"
      "\<lparr>StatusCode = 200,
           Body = TextBody [''CSAF: https://example.com/pmd/provider-metadata.json'']\<rparr>"
      ExtractProviderURL "''https://example.com/pmd/provider-metadata.json''" "[]"]
  from t1 dec have d: "download (TextBody [''<html>'']) idleWorker = (Some errNotFound, idleWorker)"
    by blast
  from t1 first dec have step: "locateLoop htmlFirstClient ''https://example.com''
      providerMetadataLocations idleWorker [] =
      locateLoop htmlFirstClient ''https://example.com'' (tl providerMetadataLocations) idleWorker
        [''https://example.com/.well-known/csaf'']"
    by (simp add: providerMetadataLocations_def StatusOK_def)
  from t2 loop sec ext final dec
  have res: "locateProviderMetadata ExtractProviderURL csafLineToHTMLClient ''example.com''
      idleWorker =
      (Some errNotFound,
       \<lparr>metadataProvider = None, loc = ''https://example.com/pmd/provider-metadata.json''\<rparr>,
       [''https://example.com/.well-known/csaf'', ''https://example.com/security/data/csaf'',
        ''https://example.com/advisories/csaf'', ''https://example.com/security/csaf'',
        ''https://example.com/.well-known/security.txt'',
        ''https://example.com/pmd/provider-metadata.json''])"
    by (simp add: StatusOK_def idleWorker_def httpsDomain_def)
  from dec d first step loop ext final res show ?thesis
    by (simp add: okResponse_def)
qed


text \<open>
  Claim C5. All four well-known paths answer NotFound. When \<open>security.txt\<close> answers
  200 without a \<open>CSAF:\<close> line, the resolver returns an error whose message reads
  \<open>secturity.txt\<close>, which is not the message of the claim. When \<open>security.txt\<close>
  answers 404, the resolver returns \<open>errNotFound\<close>. When it has \<open>CSAF:\<close> lines, the
  first URL becomes the location and is fetched as the metadata document.
\<close>

theorem security_txt_branch:
  "locateProviderMetadata ExtractProviderURL noCSAFClient ''example.com'' idleWorker =
     (Some (errorsNew ''no provider-metadata.json found in secturity.txt''), idleWorker,
      [''https://example.com/.well-known/csaf'', ''https://example.com/security/data/csaf'',
       ''https://example.com/advisories/csaf'', ''https://example.com/security/csaf'',
       ''https://example.com/.well-known/security.txt'']) \<and>
   errorsNew ''no provider-metadata.json found in secturity.txt'' \<noteq>
     errorsNew ''no provider-metadata.json found in security.txt'' \<and>
   locateProviderMetadata ExtractProviderURL nothingClient ''example.com'' idleWorker =
     (Some errNotFound, idleWorker,
      [''https://example.com/.well-known/csaf'', ''https://example.com/security/data/csaf'',
       ''https://example.com/advisories/csaf'', ''https://example.com/security/csaf'',
       ''https://example.com/.well-known/security.txt'']) \<and>
   locateProviderMetadata ExtractProviderURL csafLineClient ''example.com'' idleWorker =
     (None, \<lparr>metadataProvider = Some omittedDefaultsJSON,
             loc = ''https://example.com/pmd/provider-metadata.json''\<rparr>,
      [''https://example.com/.well-known/csaf'', ''https://example.com/security/data/csaf'',
       ''https://example.com/advisories/csaf'', ''https://example.com/security/csaf'',
       ''https://example.com/.well-known/security.txt'',
       ''https://example.com/pmd/provider-metadata.json''])"
  by (simp add: locate_eval downloadJSON_download noCSAFClient_def nothingClient_def
      csafLineClient_def)


section \<open>Properties of orphan removal\<close>

lemma map_of_filter_key:
  "map_of (filter (\<lambda>(g, n). P g) fs) f = (if P f then map_of fs f else None)"
  by (induction fs) auto

lemma map_of_RemoveAll:
  "map_of (RemoveAll fs r) f = (if prefix r f then None else map_of fs f)"
  by (simp add: RemoveAll_def map_of_filter_key)

lemma Remove_Some:
  "Remove fs p = Some fs1 \<Longrightarrow>
     \<exists>q. p \<noteq> [] \<and> EvalSymlinks fs (butlast p) = Some q \<and>
         fs1 = filter (\<lambda>(g, n). g \<noteq> q @ [last p]) fs"
  by (auto simp: Remove_def Let_def split: if_splits option.splits)

lemma map_of_Remove:
  assumes "Remove fs p = Some fs1" "map_of fs f = None"
  shows "map_of fs1 f = None"
proof -
  from Remove_Some [OF assms(1)] obtain q where
    "fs1 = filter (\<lambda>(g, n). g \<noteq> q @ [last p]) fs" by blast
  with assms(2) show ?thesis by (simp add: map_of_filter_key)
qed

lemma removeOrphan_None:
  "map_of fs f = None \<Longrightarrow> map_of (removeOrphan keep path pfx fs name) f = None"
  by (auto simp: removeOrphan_def Let_def map_of_RemoveAll map_of_Remove
      split: option.splits)

lemma sweep_None:
  "map_of fs f = None \<Longrightarrow> map_of (sweep keep path pfx fs entries) f = None"
  by (induction entries arbitrary: fs) (auto simp: removeOrphan_None)

lemma sweep_append:
  "sweep keep path pfx fs (before @ entries) =
     sweep keep path pfx (sweep keep path pfx fs before) entries"
  by (induction before arbitrary: fs) auto

lemma Rel_append: "Rel pfx (pfx @ ts) = ts"
  by (induction pfx) auto

lemma Rel_single: "Rel pfx r = [b] \<Longrightarrow> r = pfx @ [b] \<or> b = ''..''"
proof (induction pfx r rule: Rel.induct)
  case (1 targ)
  then show ?case by simp
next
  case (2 b' bs)
  then show ?case by (cases bs) auto
next
  case (3 b' bs t ts)
  show ?case
  proof (cases "b' = t")
    case True
    with 3 show ?thesis by auto
  next
    case False
    with "3.prems" have "replicate (length bs) ''..'' @ (t # ts) = []"
      by simp
    then show ?thesis by simp
  qed
qed

lemma Remove_link:
  assumes "Lstat fs (path @ [name]) = Some fi" "isSymlink fi"
  shows "\<exists>q. EvalSymlinks fs path = Some q \<and> map_of fs (q @ [name]) = Some fi \<and>
           Remove fs (path @ [name]) = Some (filter (\<lambda>(g, n). g \<noteq> q @ [name]) fs)"
proof -
  from assms(1) obtain q where q: "EvalSymlinks fs path = Some q" "isDir fs q"
      "map_of fs (q @ [name]) = Some fi"
    by (auto simp: Lstat_def split: option.splits if_splits)
  from assms(2) have "fi \<noteq> Dir" by (auto simp: isSymlink_def)
  with q show ?thesis by (simp add: Remove_def Let_def)
qed

lemma removeOrphan_inside:
  assumes "name \<notin> keep" "Lstat fs (path @ [name]) = Some fi" "isSymlink fi"
    "EvalSymlinks fs (path @ [name]) = Some r" "Stat fs r = Some Dir" "r = pfx @ [c]"
  shows "\<exists>q. EvalSymlinks fs path = Some q \<and>
      removeOrphan keep path pfx fs name =
        RemoveAll (filter (\<lambda>(g, n). g \<noteq> q @ [name]) fs) r"
proof -
  from Remove_link [OF assms(2,3)] obtain q where
    q: "EvalSymlinks fs path = Some q"
       "Remove fs (path @ [name]) = Some (filter (\<lambda>(g, n). g \<noteq> q @ [name]) fs)"
    by blast
  have "Rel pfx r = [Base r]" using assms(6) by (simp add: Rel_append Base_def)
  with assms q show ?thesis by (simp add: removeOrphan_def Let_def)
qed

lemma removeOrphan_elsewhere:
  assumes "name \<notin> keep" "Lstat fs (path @ [name]) = Some fi" "isSymlink fi"
    "EvalSymlinks fs (path @ [name]) = Some r" "Stat fs r = Some Dir"
    "\<forall>c. r \<noteq> pfx @ [c]" "Base r \<noteq> ''..''"
  shows "\<exists>q. EvalSymlinks fs path = Some q \<and>
      removeOrphan keep path pfx fs name = filter (\<lambda>(g, n). g \<noteq> q @ [name]) fs"
proof -
  from Remove_link [OF assms(2,3)] obtain q where
    q: "EvalSymlinks fs path = Some q"
       "Remove fs (path @ [name]) = Some (filter (\<lambda>(g, n). g \<noteq> q @ [name]) fs)"
    by blast
  have "Rel pfx r \<noteq> [Base r]" using Rel_single [of pfx r "Base r"] assms(6,7) by blast
  with assms q show ?thesis by (simp add: removeOrphan_def Let_def)
qed


text \<open>
  Claim C1. Let the sweep run over the entries of the published folder, and take one
  entry: \<open>reached\<close> is the file system in which the sweep reaches it, \<open>left\<close> the one
  in which it leaves it, and \<open>result\<close> the one at the end of the sweep.
  An entry whose name is in the provider set is not touched, and neither is an entry
  that is no symbolic link: \<open>left\<close> is \<open>reached\<close>.
  For an entry outside the provider set that is a link whose resolved target \<open>r\<close> is a
  directory, with \<open>q\<close> the resolved published folder:
  when \<open>r\<close> lies directly in the resolved working folder \<open>pfx\<close>, the link and
  everything at or below \<open>r\<close> are gone, at the end of the sweep too, and every other
  file is as it was;
  when \<open>r\<close> does not lie directly in \<open>pfx\<close> (outside it, in particular), the link is
  gone, at the end of the sweep too, and every other file, the target with them, is as
  it was. The last name of \<open>r\<close> is not \<open>..\<close>, as no name of a directory entry is.
\<close>

theorem removeOrphans_trichotomy:
  assumes "ReadDir fs (webFolder cfg) = Some (before @ name # after)"
    and "EvalSymlinks fs (Folder cfg) = Some pfx"
    and "reached = sweep (set (Providers cfg)) (webFolder cfg) pfx fs before"
    and "left = removeOrphan (set (Providers cfg)) (webFolder cfg) pfx reached name"
    and "result = sweep (set (Providers cfg)) (webFolder cfg) pfx left after"
  shows "removeOrphans cfg fs = Inr result \<and>
     (name \<in> set (Providers cfg) \<longrightarrow> left = reached) \<and>
     (\<forall>fi. Lstat reached (webFolder cfg @ [name]) = Some fi \<and> \<not> isSymlink fi \<longrightarrow>
        left = reached) \<and>
     (\<forall>fi r q.
        name \<notin> set (Providers cfg) \<and>
        Lstat reached (webFolder cfg @ [name]) = Some fi \<and> isSymlink fi \<and>
        EvalSymlinks reached (webFolder cfg @ [name]) = Some r \<and> Stat reached r = Some Dir \<and>
        EvalSymlinks reached (webFolder cfg) = Some q \<longrightarrow>
        ((\<exists>c. r = pfx @ [c]) \<longrightarrow>
           map_of left (q @ [name]) = None \<and>
           (\<forall>g. prefix r g \<longrightarrow> map_of left g = None) \<and>
           (\<forall>g. g \<noteq> q @ [name] \<and> \<not> prefix r g \<longrightarrow> map_of left g = map_of reached g) \<and>
           map_of result (q @ [name]) = None \<and>
           (\<forall>g. prefix r g \<longrightarrow> map_of result g = None)) \<and>
        ((\<forall>c. r \<noteq> pfx @ [c]) \<and> Base r \<noteq> ''..'' \<longrightarrow>
           map_of left (q @ [name]) = None \<and>
           (\<forall>g. g \<noteq> q @ [name] \<longrightarrow> map_of left g = map_of reached g) \<and>
           map_of result (q @ [name]) = None))"
proof (intro conjI allI impI)
  show "removeOrphans cfg fs = Inr result"
    using assms by (simp add: removeOrphans_def Let_def sweep_append)
next
  assume "name \<in> set (Providers cfg)"
  then show "left = reached" by (simp add: assms(4) removeOrphan_def)
next
  fix fi
  assume "Lstat reached (webFolder cfg @ [name]) = Some fi \<and> \<not> isSymlink fi"
  then show "left = reached" by (simp add: assms(4) removeOrphan_def)
next
  fix fi r q
  assume h: "name \<notin> set (Providers cfg) \<and>
        Lstat reached (webFolder cfg @ [name]) = Some fi \<and> isSymlink fi \<and>
        EvalSymlinks reached (webFolder cfg @ [name]) = Some r \<and> Stat reached r = Some Dir \<and>
        EvalSymlinks reached (webFolder cfg) = Some q"
  assume "\<exists>c. r = pfx @ [c]"
  then obtain c where c: "r = pfx @ [c]" by blast
  from h c removeOrphan_inside [of name "set (Providers cfg)" reached "webFolder cfg" fi r pfx c]
  have l: "left = RemoveAll (filter (\<lambda>(g, n). g \<noteq> q @ [name]) reached) r"
    by (auto simp: assms(4))
  show a: "map_of left (q @ [name]) = None"
    by (simp add: l map_of_RemoveAll map_of_filter_key)
  show b: "\<And>g. prefix r g \<Longrightarrow> map_of left g = None"
    by (simp add: l map_of_RemoveAll)
  show "\<And>g. g \<noteq> q @ [name] \<and> \<not> prefix r g \<Longrightarrow> map_of left g = map_of reached g"
    by (simp add: l map_of_RemoveAll map_of_filter_key)
  show "map_of result (q @ [name]) = None"
    unfolding assms(5) using a by (rule sweep_None)
  show "\<And>g. prefix r g \<Longrightarrow> map_of result g = None"
    unfolding assms(5) using b by (intro sweep_None)
next
  fix fi r q
  assume h: "name \<notin> set (Providers cfg) \<and>
        Lstat reached (webFolder cfg @ [name]) = Some fi \<and> isSymlink fi \<and>
        EvalSymlinks reached (webFolder cfg @ [name]) = Some r \<and> Stat reached r = Some Dir \<and>
        EvalSymlinks reached (webFolder cfg) = Some q"
  assume e: "(\<forall>c. r \<noteq> pfx @ [c]) \<and> Base r \<noteq> ''..''"
  from h e removeOrphan_elsewhere [of name "set (Providers cfg)" reached "webFolder cfg" fi r pfx]
  have l: "left = filter (\<lambda>(g, n). g \<noteq> q @ [name]) reached"
    by (auto simp: assms(4))
  show a: "map_of left (q @ [name]) = None"
    by (simp add: l map_of_filter_key)
  show "\<And>g. g \<noteq> q @ [name] \<Longrightarrow> map_of left g = map_of reached g"
    by (simp add: l map_of_filter_key)
  show "map_of result (q @ [name]) = None"
    unfolding assms(5) using a by (rule sweep_None)
qed


text \<open>
  In the example folder the sweep removes the link \<open>A\<close> and its mirror
  \<open>/var/csaf/gone-1\<close>, removes the link \<open>B\<close> and leaves \<open>/srv/ext\<close>, and leaves
  the regular file \<open>C\<close>, the link \<open>kept\<close> and its mirror.
\<close>

theorem removeOrphans_trichotomy_witness:
  "ReadDir exampleFS (webFolder exampleConfig) = Some ([] @ ''A'' # [''B'', ''C'', ''kept'']) \<and>
   EvalSymlinks exampleFS (Folder exampleConfig) = Some [''var'', ''csaf''] \<and>
   EvalSymlinks exampleFS (webFolder exampleConfig) = Some published \<and>
   ''A'' \<notin> set (Providers exampleConfig) \<and>
   Lstat exampleFS (webFolder exampleConfig @ [''A'']) =
     Some (Symlink [''var'', ''csaf'', ''gone-1'']) \<and>
   EvalSymlinks exampleFS (webFolder exampleConfig @ [''A'']) =
     Some ([''var'', ''csaf''] @ [''gone-1'']) \<and>
   Stat exampleFS ([''var'', ''csaf''] @ [''gone-1'']) = Some Dir \<and>
   removeOrphans exampleConfig exampleFS = Inr sweptFS \<and>
   map_of sweptFS (published @ [''A'']) = None \<and>
   map_of sweptFS [''var'', ''csaf'', ''gone-1''] = None \<and>
   map_of sweptFS [''var'', ''csaf'', ''gone-1'', ''index.txt''] = None \<and>
   map_of exampleFS (published @ [''B'']) = Some (Symlink [''srv'', ''ext'']) \<and>
   map_of sweptFS (published @ [''B'']) = None \<and>
   map_of sweptFS [''srv'', ''ext''] = Some Dir \<and>
   map_of sweptFS [''srv'', ''ext'', ''data.txt''] = Some File \<and>
   map_of sweptFS (published @ [''C'']) = Some File \<and>
   map_of sweptFS (published @ [''kept'']) = Some (Symlink [''var'', ''csaf'', ''kept-1'']) \<and>
   map_of sweptFS [''var'', ''csaf'', ''kept-1''] = Some Dir \<and>
   map_of sweptFS [''var'', ''csaf'', ''kept-1'', ''index.txt''] = Some File"
proof -
  have entries: "ReadDir exampleFS (webFolder exampleConfig) =
      Some ([] @ ''A'' # [''B'', ''C'', ''kept''])"
    by code_simp
  have folder: "EvalSymlinks exampleFS (Folder exampleConfig) = Some [''var'', ''csaf'']"
    by code_simp
  have web: "EvalSymlinks exampleFS (webFolder exampleConfig) = Some published"
    by code_simp
  have orphan: "''A'' \<notin> set (Providers exampleConfig)"
    by code_simp
  have link: "Lstat exampleFS (webFolder exampleConfig @ [''A'']) =
      Some (Symlink [''var'', ''csaf'', ''gone-1''])"
    by code_simp
  have target: "EvalSymlinks exampleFS (webFolder exampleConfig @ [''A'']) =
      Some ([''var'', ''csaf''] @ [''gone-1''])"
    by code_simp
  have dir: "Stat exampleFS ([''var'', ''csaf''] @ [''gone-1'']) = Some Dir"
    by code_simp
  have swept: "sweep (set (Providers exampleConfig)) (webFolder exampleConfig) [''var'', ''csaf'']
      (removeOrphan (set (Providers exampleConfig)) (webFolder exampleConfig) [''var'', ''csaf'']
         exampleFS ''A'') [''B'', ''C'', ''kept''] = sweptFS"
    by code_simp
  have start: "exampleFS = sweep (set (Providers exampleConfig)) (webFolder exampleConfig)
      [''var'', ''csaf''] exampleFS []"
    by simp
  note t = removeOrphans_trichotomy [OF entries folder start refl swept [symmetric]]
  from t have result: "removeOrphans exampleConfig exampleFS = Inr sweptFS"
    by (rule conjunct1)
  have sym: "isSymlink (Symlink [''var'', ''csaf'', ''gone-1''])"
    by (simp add: isSymlink_def)
  from t orphan link sym target dir web
  have gone: "map_of sweptFS (published @ [''A'']) = None \<and>
      (\<forall>g. prefix ([''var'', ''csaf''] @ [''gone-1'']) g \<longrightarrow> map_of sweptFS g = None)"
    by blast
  then have g1: "map_of sweptFS [''var'', ''csaf'', ''gone-1''] = None"
    and g2: "map_of sweptFS [''var'', ''csaf'', ''gone-1'', ''index.txt''] = None"
    by simp_all
  have rest: "map_of exampleFS (published @ [''B'']) = Some (Symlink [''srv'', ''ext'']) \<and>
     map_of sweptFS (published @ [''B'']) = None \<and>
     map_of sweptFS [''srv'', ''ext''] = Some Dir \<and>
     map_of sweptFS [''srv'', ''ext'', ''data.txt''] = Some File \<and>
     map_of sweptFS (published @ [''C'']) = Some File \<and>
     map_of sweptFS (published @ [''kept'']) = Some (Symlink [''var'', ''csaf'', ''kept-1'']) \<and>
     map_of sweptFS [''var'', ''csaf'', ''kept-1''] = Some Dir \<and>
     map_of sweptFS [''var'', ''csaf'', ''kept-1'', ''index.txt''] = Some File"
    by code_simp
  from entries folder web orphan link target dir result gone g1 g2 rest show ?thesis
    by blast
qed


end
